theory Spec2Isabelle
  imports Complex_Main "HOL-Library.Word" "HOL-Library.AList" "HOL-Library.Monad_Syntax"
    "HOL-Library.Multiset"
begin

unbundle bit_operations_syntax

section \<open>Numbers\<close>

text \<open>
  A JavaScript number is modelled as a real: finite arithmetic is exact (no rounding, no
  overflow) and there is a single zero. The operations of the source that can leave the
  finite numbers are written out. In \<open>getInverseMass\<close>, the resolver and the integrator
  such an operation returns an option, and \<open>None\<close> says that the computation produced
  NaN or an infinity (the model then says nothing more about the state); the ray caster,
  which relies on the infinities of a division by zero, works on the extended numbers
  \<open>jsnum\<close> further down.
\<close>

definition js_div :: "real \<Rightarrow> real \<Rightarrow> real option" where
  "js_div a b = (if b = 0 then None else Some (a / b))"

definition js_sqrt :: "real \<Rightarrow> real option" where
  "js_sqrt a = (if a < 0 then None else Some (sqrt a))"

definition js_pow :: "real \<Rightarrow> real \<Rightarrow> real option" where
  "js_pow b e =
     (if e = 0 then Some 1
      else if 0 < b then Some (b powr e)
      else if b = 0 then (if 0 < e then Some 0 else None)
      else if of_int \<lfloor>e\<rfloor> = e then Some (b powi \<lfloor>e\<rfloor>)
      else None)"

text \<open>\<open>a || d\<close> on an optional number: an omitted field and the number 0 are both falsy.\<close>

fun js_or :: "real option \<Rightarrow> real \<Rightarrow> real" where
  "js_or None d = d"
| "js_or (Some v) d = (if v = 0 then d else v)"

fun js_or_int :: "int option \<Rightarrow> int \<Rightarrow> int" where
  "js_or_int None d = d"
| "js_or_int (Some v) d = (if v = 0 then d else v)"

fun js_or_string :: "string option \<Rightarrow> string \<Rightarrow> string" where
  "js_or_string None d = d"
| "js_or_string (Some v) d = (if v = [] then d else v)"

fun js_or_bool :: "bool option \<Rightarrow> bool \<Rightarrow> bool" where
  "js_or_bool None d = d"
| "js_or_bool (Some v) d = (if v then v else d)"

text \<open>\<open>v !== false\<close> on an optional boolean.\<close>

fun js_not_false :: "bool option \<Rightarrow> bool" where
  "js_not_false None = True"
| "js_not_false (Some v) = v"

text \<open>
  \<open>a & b\<close>: both operands are converted to 32-bit integers and combined bitwise. Layers
  and masks are integral numbers, so the conversion is the wrap-around modulo \<open>2 ^ 32\<close>.
\<close>

definition js_and :: "int \<Rightarrow> int \<Rightarrow> 32 word" where
  "js_and a b = (word_of_int a :: 32 word) AND word_of_int b"

section \<open>Vector2\<close>

record Vector2 =
  x :: real
  y :: real

definition Vector2 :: "real \<Rightarrow> real \<Rightarrow> Vector2" where
  "Vector2 a b = \<lparr>x = a, y = b\<rparr>"

definition add :: "Vector2 \<Rightarrow> Vector2 \<Rightarrow> Vector2" where
  "add v w = Vector2 (x v + x w) (y v + y w)"

definition subtract :: "Vector2 \<Rightarrow> Vector2 \<Rightarrow> Vector2" where
  "subtract v w = Vector2 (x v - x w) (y v - y w)"

definition multiply :: "Vector2 \<Rightarrow> real \<Rightarrow> Vector2" where
  "multiply v s = Vector2 (x v * s) (y v * s)"

definition divide :: "Vector2 \<Rightarrow> real \<Rightarrow> Vector2" where
  "divide v s = (if s \<noteq> 0 then Vector2 (x v / s) (y v / s) else v)"

definition magnitude :: "Vector2 \<Rightarrow> real" where
  "magnitude v = sqrt (x v * x v + y v * y v)"

definition magnitudeSquared :: "Vector2 \<Rightarrow> real" where
  "magnitudeSquared v = x v * x v + y v * y v"

definition normalize :: "Vector2 \<Rightarrow> Vector2" where
  "normalize v = (let mag = magnitude v in if 0 < mag then divide v mag else v)"

definition distanceTo :: "Vector2 \<Rightarrow> Vector2 \<Rightarrow> real" where
  "distanceTo v w = (let dx = x v - x w; dy = y v - y w in sqrt (dx * dx + dy * dy))"

definition dot :: "Vector2 \<Rightarrow> Vector2 \<Rightarrow> real" where
  "dot v w = x v * x w + y v * y w"

definition limit :: "Vector2 \<Rightarrow> real \<Rightarrow> Vector2" where
  "limit v m = (if m * m < magnitudeSquared v then multiply (normalize v) m else v)"

section \<open>PhysicsBody\<close>

datatype Shape =
    is_rect: Rect (width: real) (height: real)
  | is_circle: Circle (radius: real)
  | OtherShape string

record Material =
  friction :: real
  restitution :: real
  density :: real

record Bounds =
  left :: real
  top_b :: real
  right :: real
  bottom :: real

text \<open>
  \<open>body_id\<close> and \<open>body_type\<close> are the fields \<open>id\<close> and \<open>type\<close>; \<open>userData\<close> keeps the
  type tag of the user data, the only part of it the engine reads.
\<close>

record PhysicsBody =
  body_id :: string
  position :: Vector2
  velocity :: Vector2
  rotation :: real
  angularVelocity :: real
  mass :: real
  body_type :: string
  useGravity :: bool
  enabled :: bool
  linearDamping :: real
  angularDamping :: real
  maxVelocity :: real
  shape :: Shape
  material :: Material
  collisionLayer :: int
  collisionMask :: int
  isTrigger :: bool
  bounds :: Bounds
  userData :: "string option"

text \<open>The \<open>options\<close> argument of the constructor: \<open>None\<close> is a field left out.\<close>

record BodyOptions =
  o_position :: "Vector2 option"
  o_velocity :: "Vector2 option"
  o_rotation :: "real option"
  o_angularVelocity :: "real option"
  o_mass :: "real option"
  o_type :: "string option"
  o_useGravity :: "bool option"
  o_enabled :: "bool option"
  o_linearDamping :: "real option"
  o_angularDamping :: "real option"
  o_maxVelocity :: "real option"
  o_shape :: "Shape option"
  o_material :: "Material option"
  o_collisionLayer :: "int option"
  o_collisionMask :: "int option"
  o_isTrigger :: "bool option"
  o_userData :: "string option"

definition no_options :: BodyOptions where
  "no_options = \<lparr>o_position = None, o_velocity = None, o_rotation = None,
     o_angularVelocity = None, o_mass = None, o_type = None, o_useGravity = None,
     o_enabled = None, o_linearDamping = None, o_angularDamping = None,
     o_maxVelocity = None, o_shape = None, o_material = None, o_collisionLayer = None,
     o_collisionMask = None, o_isTrigger = None, o_userData = None\<rparr>"

definition updateBounds :: "PhysicsBody \<Rightarrow> PhysicsBody" where
  "updateBounds b =
     (case shape b of
        Rect w h \<Rightarrow>
          (let halfWidth = w / 2; halfHeight = h / 2 in
           b\<lparr>bounds := \<lparr>left = x (position b) - halfWidth, top_b = y (position b) - halfHeight,
                         right = x (position b) + halfWidth, bottom = y (position b) + halfHeight\<rparr>\<rparr>)
      | Circle r \<Rightarrow>
          b\<lparr>bounds := \<lparr>left = x (position b) - r, top_b = y (position b) - r,
                        right = x (position b) + r, bottom = y (position b) + r\<rparr>\<rparr>
      | OtherShape t \<Rightarrow> b)"

text \<open>
  The constructor. \<open>rid\<close> is the string \<open>Math.random().toString(36).substr(2, 9)\<close> drawn
  for the new body.
\<close>

definition new_PhysicsBody :: "BodyOptions \<Rightarrow> string \<Rightarrow> PhysicsBody" where
  "new_PhysicsBody options rid =
     updateBounds
       \<lparr>body_id = rid,
        position = (case o_position options of Some p \<Rightarrow> p | None \<Rightarrow> Vector2 0 0),
        velocity = (case o_velocity options of Some v \<Rightarrow> v | None \<Rightarrow> Vector2 0 0),
        rotation = js_or (o_rotation options) 0,
        angularVelocity = js_or (o_angularVelocity options) 0,
        mass = js_or (o_mass options) 1,
        body_type = js_or_string (o_type options) ''dynamic'',
        useGravity = js_not_false (o_useGravity options),
        enabled = js_not_false (o_enabled options),
        linearDamping = js_or (o_linearDamping options) (1 / 100),
        angularDamping = js_or (o_angularDamping options) (5 / 100),
        maxVelocity = js_or (o_maxVelocity options) 0,
        shape = (case o_shape options of Some s \<Rightarrow> s | None \<Rightarrow> Rect 32 32),
        material = (case o_material options of Some m \<Rightarrow> m
                    | None \<Rightarrow> \<lparr>friction = 3 / 10, restitution = 2 / 10, density = 1\<rparr>),
        collisionLayer = js_or_int (o_collisionLayer options) 1,
        collisionMask = js_or_int (o_collisionMask options) 4294967295,
        isTrigger = js_or_bool (o_isTrigger options) False,
        bounds = \<lparr>left = 0, top_b = 0, right = 0, bottom = 0\<rparr>,
        userData = o_userData options\<rparr>"

definition getInverseMass :: "PhysicsBody \<Rightarrow> real option" where
  "getInverseMass b = (if body_type b = ''static'' then Some 0 else js_div 1 (mass b))"

section \<open>PhysicsEngine: the body registry\<close>

text \<open>
  Body objects live in \<open>heap\<close>; a reference to a body is its index there. A \<open>Map\<close> is an
  association list and a \<open>Set\<close> a list without repetition, both in insertion order.
  The fields \<open>timeStep\<close>, \<open>velocityIterations\<close>, \<open>positionIterations\<close>, \<open>constraints\<close>,
  \<open>materials\<close> and \<open>debugRender\<close> of the engine are read by none of the methods below and
  are left out.
\<close>

record Stats =
  bodyCount :: int
  collisionChecks :: int
  collisionsDetected :: int

record Collision =
  bodyA :: nat
  bodyB :: nat
  normal :: Vector2
  penetration :: real
  contactPoint :: Vector2

record SpatialHash =
  cellSize :: real
  grid :: "((int \<times> int) \<times> nat list) list"

record PhysicsEngine =
  gravity :: Vector2
  heap :: "PhysicsBody list"
  bodies :: "(string \<times> nat) list"
  staticBodies :: "nat list"
  dynamicBodies :: "nat list"
  collisionPairs :: "Collision list"
  broadPhase :: SpatialHash
  stats :: Stats

definition set_add :: "'a \<Rightarrow> 'a list \<Rightarrow> 'a list" where
  "set_add a s = (if a \<in> set s then s else s @ [a])"

definition set_delete :: "'a \<Rightarrow> 'a list \<Rightarrow> 'a list" where
  "set_delete a s = removeAll a s"

definition new_PhysicsEngine :: PhysicsEngine where
  "new_PhysicsEngine =
     \<lparr>gravity = Vector2 0 980, heap = [], bodies = [], staticBodies = [], dynamicBodies = [],
      collisionPairs = [], broadPhase = \<lparr>cellSize = 64, grid = []\<rparr>,
      stats = \<lparr>bodyCount = 0, collisionChecks = 0, collisionsDetected = 0\<rparr>\<rparr>"

definition createBody :: "BodyOptions \<Rightarrow> string \<Rightarrow> PhysicsEngine \<Rightarrow> nat \<times> PhysicsEngine" where
  "createBody options rid e =
     (let body = new_PhysicsBody options rid;
          r = length (heap e);
          e1 = e\<lparr>heap := heap e @ [body], bodies := AList.update (body_id body) r (bodies e)\<rparr>;
          e2 = (if body_type body = ''static''
                then e1\<lparr>staticBodies := set_add r (staticBodies e1)\<rparr>
                else e1\<lparr>dynamicBodies := set_add r (dynamicBodies e1)\<rparr>)
      in (r, e2\<lparr>stats := (stats e2)\<lparr>bodyCount := bodyCount (stats e2) + 1\<rparr>\<rparr>))"

text \<open>\<open>removeBody\<close> is passed a body object, that is a reference into \<open>heap\<close>.\<close>

definition removeBody :: "nat \<Rightarrow> PhysicsEngine \<Rightarrow> PhysicsEngine" where
  "removeBody r e =
     (let body = heap e ! r in
      if map_of (bodies e) (body_id body) \<noteq> None
      then e\<lparr>bodies := AList.delete (body_id body) (bodies e),
             staticBodies := set_delete r (staticBodies e),
             dynamicBodies := set_delete r (dynamicBodies e),
             stats := (stats e)\<lparr>bodyCount := bodyCount (stats e) - 1\<rparr>\<rparr>
      else e)"

definition shouldCollide :: "PhysicsBody \<Rightarrow> PhysicsBody \<Rightarrow> bool" where
  "shouldCollide A B \<longleftrightarrow>
     js_and (collisionMask A) (collisionLayer B) \<noteq> 0 \<or>
     js_and (collisionMask B) (collisionLayer A) \<noteq> 0"

section \<open>Registry invariant\<close>

text \<open>
  The registered bodies are the values of the \<open>bodies\<close> map. \<open>registry_inv\<close> relates the
  map, the two type sets and \<open>stats.bodyCount\<close>; \<open>bodies.size\<close> is the length of the
  association list.
\<close>

definition registered :: "PhysicsEngine \<Rightarrow> nat set" where
  "registered e = snd ` set (bodies e)"

definition registry_inv :: "PhysicsEngine \<Rightarrow> bool" where
  "registry_inv e \<longleftrightarrow>
     (\<forall>r \<in> registered e.
        if body_type (heap e ! r) = ''static''
        then r \<in> set (staticBodies e) \<and> r \<notin> set (dynamicBodies e)
        else r \<in> set (dynamicBodies e) \<and> r \<notin> set (staticBodies e)) \<and>
     set (staticBodies e) \<subseteq> registered e \<and>
     set (dynamicBodies e) \<subseteq> registered e \<and>
     bodyCount (stats e) = int (card (registered e)) \<and>
     bodyCount (stats e) = int (length (bodies e))"

text \<open>
  Every entry of the map refers to an allocated body stored under its own id, and the ids
  of all bodies created so far are pairwise distinct.
\<close>

definition heap_wf :: "PhysicsEngine \<Rightarrow> bool" where
  "heap_wf e \<longleftrightarrow>
     (\<forall>i r. (i, r) \<in> set (bodies e) \<longrightarrow> r < length (heap e) \<and> body_id (heap e ! r) = i) \<and>
     distinct (map fst (bodies e)) \<and>
     distinct (map body_id (heap e))"

text \<open>
  A sequence of registry calls. \<open>CreateBody options rid\<close> carries the id drawn for the new
  body; \<open>RemoveBody r\<close> passes the body object \<open>r\<close>. \<open>fresh_calls\<close> holds when every id
  drawn is new and every body removed was created by this engine.
\<close>

datatype Call = CreateBody BodyOptions string | RemoveBody nat

fun run :: "Call list \<Rightarrow> PhysicsEngine \<Rightarrow> PhysicsEngine" where
  "run [] e = e"
| "run (CreateBody options rid # cs) e = run cs (snd (createBody options rid e))"
| "run (RemoveBody r # cs) e = run cs (removeBody r e)"

fun fresh_calls :: "Call list \<Rightarrow> PhysicsEngine \<Rightarrow> bool" where
  "fresh_calls [] e = True"
| "fresh_calls (CreateBody options rid # cs) e =
     (rid \<notin> set (map body_id (heap e)) \<and> fresh_calls cs (snd (createBody options rid e)))"
| "fresh_calls (RemoveBody r # cs) e = (r < length (heap e) \<and> fresh_calls cs (removeBody r e))"

section \<open>Narrow phase\<close>

definition aabbOverlap :: "Bounds \<Rightarrow> Bounds \<Rightarrow> bool" where
  "aabbOverlap boundsA boundsB \<longleftrightarrow>
     \<not> (right boundsA < left boundsB \<or> left boundsA > right boundsB \<or>
        bottom boundsA < top_b boundsB \<or> top_b boundsA > bottom boundsB)"

definition circleCircleCollision :: "PhysicsBody list \<Rightarrow> nat \<Rightarrow> nat \<Rightarrow> Collision option" where
  "circleCircleCollision h a b =
     (let dist = distanceTo (position (h ! a)) (position (h ! b));
          radiusSum = radius (shape (h ! a)) + radius (shape (h ! b))
      in if dist < radiusSum
         then (let nrm = normalize (subtract (position (h ! b)) (position (h ! a)));
                   pen = radiusSum - dist
               in Some \<lparr>bodyA = a, bodyB = b, normal = nrm, penetration = pen,
                         contactPoint = add (position (h ! a))
                                            (multiply nrm (radius (shape (h ! a))))\<rparr>)
         else None)"

definition rectRectCollision :: "PhysicsBody list \<Rightarrow> nat \<Rightarrow> nat \<Rightarrow> Collision option" where
  "rectRectCollision h a b =
     (let boundsA = bounds (h ! a);
          boundsB = bounds (h ! b);
          overlapX = min (right boundsA) (right boundsB) - max (left boundsA) (left boundsB);
          overlapY = min (bottom boundsA) (bottom boundsB) - max (top_b boundsA) (top_b boundsB)
      in if overlapX > 0 \<and> overlapY > 0
         then (let (nrm, pen) =
                     (if overlapX < overlapY
                      then (Vector2 (if x (position (h ! a)) < x (position (h ! b)) then - 1 else 1) 0,
                            overlapX)
                      else (Vector2 0 (if y (position (h ! a)) < y (position (h ! b)) then - 1 else 1),
                            overlapY))
               in Some \<lparr>bodyA = a, bodyB = b, normal = nrm, penetration = pen,
                         contactPoint =
                           Vector2 ((max (left boundsA) (left boundsB) +
                                     min (right boundsA) (right boundsB)) / 2)
                                   ((max (top_b boundsA) (top_b boundsB) +
                                     min (bottom boundsA) (bottom boundsB)) / 2)\<rparr>)
         else None)"

definition circleRectCollision :: "PhysicsBody list \<Rightarrow> nat \<Rightarrow> nat \<Rightarrow> Collision option" where
  "circleRectCollision h circleBody rectBody =
     (let circle = position (h ! circleBody);
          rect = bounds (h ! rectBody);
          closestX = max (left rect) (min (x circle) (right rect));
          closestY = max (top_b rect) (min (y circle) (bottom rect));
          dist = distanceTo circle (Vector2 closestX closestY)
      in if dist < radius (shape (h ! circleBody))
         then (let nrm = normalize (subtract circle (Vector2 closestX closestY));
                   pen = radius (shape (h ! circleBody)) - dist
               in Some \<lparr>bodyA = circleBody, bodyB = rectBody, normal = nrm, penetration = pen,
                         contactPoint = Vector2 closestX closestY\<rparr>)
         else None)"

definition checkCollision :: "PhysicsBody list \<Rightarrow> nat \<Rightarrow> nat \<Rightarrow> Collision option" where
  "checkCollision h a b =
     (if \<not> aabbOverlap (bounds (h ! a)) (bounds (h ! b)) then None
      else if is_circle (shape (h ! a)) \<and> is_circle (shape (h ! b)) then circleCircleCollision h a b
      else if is_rect (shape (h ! a)) \<and> is_rect (shape (h ! b)) then rectRectCollision h a b
      else if is_circle (shape (h ! a)) \<and> is_rect (shape (h ! b)) then circleRectCollision h a b
      else if is_rect (shape (h ! a)) \<and> is_circle (shape (h ! b)) then circleRectCollision h b a
      else None)"

section \<open>Resolver\<close>

text \<open>
  The resolver mutates the two bodies of a manifold in place: it takes the heap and the
  two references and returns the heap. The normal and the penetration are the ones
  recorded at detection.
\<close>

definition resolvePosition ::
  "PhysicsBody list \<Rightarrow> nat \<Rightarrow> nat \<Rightarrow> Vector2 \<Rightarrow> real \<Rightarrow> PhysicsBody list option" where
  "resolvePosition h a b nrm pen =
     do {
       invA \<leftarrow> getInverseMass (h ! a);
       invB \<leftarrow> getInverseMass (h ! b);
       let totalInvMass = invA + invB;
       if totalInvMass = 0 then Some h
       else do {
         q \<leftarrow> js_div pen totalInvMass;
         let correction = multiply nrm (q * (8 / 10));
         let h1 = (if body_type (h ! a) = ''dynamic''
                   then h[a := updateBounds ((h ! a)\<lparr>position :=
                                 subtract (position (h ! a)) (multiply correction invA)\<rparr>)]
                   else h);
         let h2 = (if body_type (h1 ! b) = ''dynamic''
                   then h1[b := updateBounds ((h1 ! b)\<lparr>position :=
                                  add (position (h1 ! b)) (multiply correction invB)\<rparr>)]
                   else h1);
         Some h2
       }
     }"

definition applyFriction ::
  "PhysicsBody list \<Rightarrow> nat \<Rightarrow> nat \<Rightarrow> Vector2 \<Rightarrow> real \<Rightarrow> PhysicsBody list option" where
  "applyFriction h a b nrm impulseScalar =
     (let relativeVelocity = subtract (velocity (h ! b)) (velocity (h ! a));
          tangent = normalize (subtract relativeVelocity
                                        (multiply nrm (dot relativeVelocity nrm)));
          frictionImpulse = - dot relativeVelocity tangent
      in do {
        invA \<leftarrow> getInverseMass (h ! a);
        invB \<leftarrow> getInverseMass (h ! b);
        let totalInvMass = invA + invB;
        if totalInvMass = 0 then Some h
        else do {
          mu \<leftarrow> js_sqrt (friction (material (h ! a)) * friction (material (h ! b)));
          fr \<leftarrow> (if \<bar>frictionImpulse\<bar> < impulseScalar * mu
                  then do { q \<leftarrow> js_div frictionImpulse totalInvMass; Some (multiply tangent q) }
                  else do { q \<leftarrow> js_div (- impulseScalar * mu) totalInvMass;
                            Some (multiply tangent q) });
          let h1 = (if body_type (h ! a) = ''dynamic''
                    then h[a := (h ! a)\<lparr>velocity :=
                                  subtract (velocity (h ! a)) (multiply fr invA)\<rparr>]
                    else h);
          let h2 = (if body_type (h1 ! b) = ''dynamic''
                    then h1[b := (h1 ! b)\<lparr>velocity :=
                                   add (velocity (h1 ! b)) (multiply fr invB)\<rparr>]
                    else h1);
          Some h2
        }
      })"

definition resolveVelocity ::
  "PhysicsBody list \<Rightarrow> nat \<Rightarrow> nat \<Rightarrow> Vector2 \<Rightarrow> PhysicsBody list option" where
  "resolveVelocity h a b nrm =
     (let relativeVelocity = subtract (velocity (h ! b)) (velocity (h ! a));
          velocityAlongNormal = dot relativeVelocity nrm
      in if velocityAlongNormal > 0 then Some h
         else (let rest = min (restitution (material (h ! a))) (restitution (material (h ! b)));
                   impulseScalar = - (1 + rest) * velocityAlongNormal
               in do {
                 invA \<leftarrow> getInverseMass (h ! a);
                 invB \<leftarrow> getInverseMass (h ! b);
                 let totalInvMass = invA + invB;
                 if totalInvMass = 0 then Some h
                 else do {
                   q \<leftarrow> js_div impulseScalar totalInvMass;
                   let impulse = multiply nrm q;
                   let h1 = (if body_type (h ! a) = ''dynamic''
                             then h[a := (h ! a)\<lparr>velocity :=
                                           subtract (velocity (h ! a)) (multiply impulse invA)\<rparr>]
                             else h);
                   let h2 = (if body_type (h1 ! b) = ''dynamic''
                             then h1[b := (h1 ! b)\<lparr>velocity :=
                                            add (velocity (h1 ! b)) (multiply impulse invB)\<rparr>]
                             else h1);
                   applyFriction h2 a b nrm impulseScalar
                 }
               }))"

definition resolveCollision :: "PhysicsBody list \<Rightarrow> Collision \<Rightarrow> PhysicsBody list option" where
  "resolveCollision h c =
     do {
       h1 \<leftarrow> resolvePosition h (bodyA c) (bodyB c) (normal c) (penetration c);
       resolveVelocity h1 (bodyA c) (bodyB c) (normal c)
     }"

section \<open>Ray casting\<close>

text \<open>
  The ray caster divides by the components of the normalised direction without a guard, and
  a ray along an axis makes one of them zero; its intermediate values are therefore
  numbers extended by the two infinities and NaN, with the arithmetic, the comparisons
  (false on NaN) and \<open>Math.min\<close> and \<open>Math.max\<close> (NaN when an argument is NaN) of the
  language.
\<close>

datatype jsnum = NaN | NegInfinity | Number real | Infinity

definition js_divide :: "real \<Rightarrow> real \<Rightarrow> jsnum" where
  "js_divide a b =
     (if b \<noteq> 0 then Number (a / b)
      else if 0 < a then Infinity else if a < 0 then NegInfinity else NaN)"

fun js_lt :: "jsnum \<Rightarrow> jsnum \<Rightarrow> bool" where
  "js_lt NaN b = False"
| "js_lt a NaN = False"
| "js_lt a NegInfinity = False"
| "js_lt NegInfinity b = True"
| "js_lt Infinity b = False"
| "js_lt (Number a) Infinity = True"
| "js_lt (Number a) (Number b) = (a < b)"

definition js_le :: "jsnum \<Rightarrow> jsnum \<Rightarrow> bool" where
  "js_le a b \<longleftrightarrow> a \<noteq> NaN \<and> b \<noteq> NaN \<and> \<not> js_lt b a"

definition js_min :: "jsnum \<Rightarrow> jsnum \<Rightarrow> jsnum" where
  "js_min a b = (if a = NaN \<or> b = NaN then NaN else if js_lt b a then b else a)"

definition js_max :: "jsnum \<Rightarrow> jsnum \<Rightarrow> jsnum" where
  "js_max a b = (if a = NaN \<or> b = NaN then NaN else if js_lt a b then b else a)"

fun js_neg :: "jsnum \<Rightarrow> jsnum" where
  "js_neg NaN = NaN"
| "js_neg NegInfinity = Infinity"
| "js_neg Infinity = NegInfinity"
| "js_neg (Number a) = Number (- a)"

fun js_add :: "jsnum \<Rightarrow> jsnum \<Rightarrow> jsnum" where
  "js_add NaN b = NaN"
| "js_add a NaN = NaN"
| "js_add (Number a) (Number b) = Number (a + b)"
| "js_add (Number a) b = b"
| "js_add a (Number b) = a"
| "js_add a b = (if a = b then a else NaN)"

definition js_sub :: "jsnum \<Rightarrow> jsnum \<Rightarrow> jsnum" where
  "js_sub a b = js_add a (js_neg b)"

fun js_sign :: "jsnum \<Rightarrow> real" where
  "js_sign NaN = 0"
| "js_sign NegInfinity = - 1"
| "js_sign Infinity = 1"
| "js_sign (Number a) = sgn a"

fun js_mul :: "jsnum \<Rightarrow> jsnum \<Rightarrow> jsnum" where
  "js_mul NaN b = NaN"
| "js_mul a NaN = NaN"
| "js_mul (Number a) (Number b) = Number (a * b)"
| "js_mul a b =
     (if js_sign a * js_sign b = 0 then NaN
      else if 0 < js_sign a * js_sign b then Infinity else NegInfinity)"

fun js_abs :: "jsnum \<Rightarrow> jsnum" where
  "js_abs NaN = NaN"
| "js_abs NegInfinity = Infinity"
| "js_abs Infinity = Infinity"
| "js_abs (Number a) = Number \<bar>a\<bar>"

text \<open>A \<open>Vector2\<close> whose components may be infinite or NaN (the hit point).\<close>

record JVector2 =
  jx :: jsnum
  jy :: jsnum

text \<open>
  A hit: \<open>hit_body\<close>, \<open>hit_point\<close>, \<open>hit_distance\<close> and \<open>hit_normal\<close> are the fields \<open>body\<close>,
  \<open>point\<close>, \<open>distance\<close> and \<open>normal\<close>.
\<close>

record RayHit =
  hit_body :: nat
  hit_point :: JVector2
  hit_distance :: jsnum
  hit_normal :: Vector2

definition calculateHitNormal :: "JVector2 \<Rightarrow> Bounds \<Rightarrow> Vector2" where
  "calculateHitNormal pt bnd =
     (let center = Vector2 ((left bnd + right bnd) / 2) ((top_b bnd + bottom bnd) / 2);
          diffX = js_sub (jx pt) (Number (x center));
          diffY = js_sub (jy pt) (Number (y center));
          absX = js_abs diffX;
          absY = js_abs diffY
      in if js_lt absY absX
         then Vector2 (if js_lt (Number 0) diffX then 1 else - 1) 0
         else Vector2 0 (if js_lt (Number 0) diffY then 1 else - 1))"

definition raycastBody ::
  "Vector2 \<Rightarrow> Vector2 \<Rightarrow> jsnum \<Rightarrow> PhysicsBody list \<Rightarrow> nat \<Rightarrow> RayHit option" where
  "raycastBody origin direction maxDistance h r =
     (if \<not> is_rect (shape (h ! r)) then None
      else
        (let bnd = bounds (h ! r);
             dirNorm = normalize direction;
             tMin = js_divide (left bnd - x origin) (x dirNorm);
             tMax = js_divide (right bnd - x origin) (x dirNorm);
             tYMin = js_divide (top_b bnd - y origin) (y dirNorm);
             tYMax = js_divide (bottom bnd - y origin) (y dirNorm);
             tNear = js_max (js_min tMin tMax) (js_min tYMin tYMax);
             tFar = js_min (js_max tMin tMax) (js_max tYMin tYMax)
         in if js_le tNear tFar \<and> js_le (Number 0) tNear \<and> js_le tNear maxDistance
            then (let hitPoint =
                        \<lparr>jx = js_add (Number (x origin)) (js_mul (Number (x dirNorm)) tNear),
                         jy = js_add (Number (y origin)) (js_mul (Number (y dirNorm)) tNear)\<rparr>
                  in Some \<lparr>hit_body = r, hit_point = hitPoint, hit_distance = tNear,
                            hit_normal = calculateHitNormal hitPoint bnd\<rparr>)
            else None))"

text \<open>
  \<open>hits.sort((a, b) => a.distance - b.distance)\<close>: the sort is stable and places \<open>a\<close> after
  \<open>b\<close> when the comparator is positive; a comparator that is NaN counts as 0.
\<close>

fun insert_hit :: "RayHit \<Rightarrow> RayHit list \<Rightarrow> RayHit list" where
  "insert_hit a [] = [a]"
| "insert_hit a (b # bs) =
     (if js_lt (Number 0) (js_sub (hit_distance a) (hit_distance b))
      then b # insert_hit a bs else a # b # bs)"

definition sort_hits :: "RayHit list \<Rightarrow> RayHit list" where
  "sort_hits hits = foldr insert_hit hits []"

fun collect_hits ::
  "Vector2 \<Rightarrow> Vector2 \<Rightarrow> jsnum \<Rightarrow> int \<Rightarrow> PhysicsBody list \<Rightarrow> nat list \<Rightarrow> RayHit list" where
  "collect_hits origin direction maxDistance layerMask h [] = []"
| "collect_hits origin direction maxDistance layerMask h (r # rs) =
     (if \<not> enabled (h ! r) \<or> js_and (collisionLayer (h ! r)) layerMask = 0
      then collect_hits origin direction maxDistance layerMask h rs
      else (case raycastBody origin direction maxDistance h r of
              None \<Rightarrow> collect_hits origin direction maxDistance layerMask h rs
            | Some hit \<Rightarrow> hit # collect_hits origin direction maxDistance layerMask h rs))"

text \<open>The defaults of \<open>raycast\<close> are \<open>maxDistance = Infinity\<close> and \<open>layerMask = 0xFFFFFFFF\<close>.\<close>

definition raycast :: "PhysicsEngine \<Rightarrow> Vector2 \<Rightarrow> Vector2 \<Rightarrow> jsnum \<Rightarrow> int \<Rightarrow> RayHit list" where
  "raycast e origin direction maxDistance layerMask =
     sort_hits (collect_hits origin direction maxDistance layerMask (heap e) (map snd (bodies e)))"

text \<open>
  The slab method in the words of the specification: the entry time is the greatest of
  the per-axis minima of the two intersection parameters, the exit time the least of the
  per-axis maxima.
\<close>

definition entry_time :: "Vector2 \<Rightarrow> Vector2 \<Rightarrow> Bounds \<Rightarrow> jsnum" where
  "entry_time origin direction bnd =
     js_max (js_min (js_divide (left bnd - x origin) (x (normalize direction)))
                    (js_divide (right bnd - x origin) (x (normalize direction))))
            (js_min (js_divide (top_b bnd - y origin) (y (normalize direction)))
                    (js_divide (bottom bnd - y origin) (y (normalize direction))))"

definition exit_time :: "Vector2 \<Rightarrow> Vector2 \<Rightarrow> Bounds \<Rightarrow> jsnum" where
  "exit_time origin direction bnd =
     js_min (js_max (js_divide (left bnd - x origin) (x (normalize direction)))
                    (js_divide (right bnd - x origin) (x (normalize direction))))
            (js_max (js_divide (top_b bnd - y origin) (y (normalize direction)))
                    (js_divide (bottom bnd - y origin) (y (normalize direction))))"

definition ray_hits :: "Vector2 \<Rightarrow> Vector2 \<Rightarrow> jsnum \<Rightarrow> Bounds \<Rightarrow> bool" where
  "ray_hits origin direction maxDistance bnd \<longleftrightarrow>
     js_le (entry_time origin direction bnd) (exit_time origin direction bnd) \<and>
     js_le (Number 0) (entry_time origin direction bnd) \<and>
     js_le (entry_time origin direction bnd) maxDistance"

section \<open>Spatial hash\<close>

text \<open>A cell key, the string of \<open>x\<close>, a comma and \<open>y\<close>, is the pair of the two integers.\<close>

definition clear :: "SpatialHash \<Rightarrow> SpatialHash" where
  "clear sh = sh\<lparr>grid := []\<rparr>"

definition getCells :: "SpatialHash \<Rightarrow> Bounds \<Rightarrow> (int \<times> int) list option" where
  "getCells sh bnd =
     do {
       l \<leftarrow> js_div (left bnd) (cellSize sh);
       r \<leftarrow> js_div (right bnd) (cellSize sh);
       t \<leftarrow> js_div (top_b bnd) (cellSize sh);
       b \<leftarrow> js_div (bottom bnd) (cellSize sh);
       let startX = \<lfloor>l\<rfloor>;
       let endX = \<lfloor>r\<rfloor>;
       let startY = \<lfloor>t\<rfloor>;
       let endY = \<lfloor>b\<rfloor>;
       Some (concat (map (\<lambda>cx. map (\<lambda>cy. (cx, cy)) [startY..endY]) [startX..endX]))
     }"

definition grid_add ::
  "(int \<times> int) \<Rightarrow> nat \<Rightarrow> ((int \<times> int) \<times> nat list) list \<Rightarrow> ((int \<times> int) \<times> nat list) list" where
  "grid_add cellKey r g =
     (case map_of g cellKey of
        None \<Rightarrow> g @ [(cellKey, [r])]
      | Some s \<Rightarrow> AList.update cellKey (set_add r s) g)"

definition insert_body :: "PhysicsBody list \<Rightarrow> nat \<Rightarrow> SpatialHash \<Rightarrow> SpatialHash option" where
  "insert_body h r sh =
     do {
       cells \<leftarrow> getCells sh (bounds (h ! r));
       Some (sh\<lparr>grid := fold (\<lambda>cellKey g. grid_add cellKey r g) cells (grid sh)\<rparr>)
     }"

text \<open>Comparison of two ids with \<open><\<close>: lexicographic, by character code.\<close>

fun string_lt :: "string \<Rightarrow> string \<Rightarrow> bool" where
  "string_lt [] [] = False"
| "string_lt [] (d # ds) = True"
| "string_lt (c # cs) [] = False"
| "string_lt (c # cs) (d # ds) =
     ((of_char c :: nat) < of_char d \<or> (c = d \<and> string_lt cs ds))"

definition pairKey :: "PhysicsBody \<Rightarrow> PhysicsBody \<Rightarrow> string" where
  "pairKey A B =
     (if string_lt (body_id A) (body_id B) then body_id A @ ''-'' @ body_id B
      else body_id B @ ''-'' @ body_id A)"

text \<open>
  The two nested loops over one cell: \<open>pairs_inner\<close> runs \<open>j\<close> for a fixed \<open>i\<close>,
  \<open>pairs_of_cell\<close> runs \<open>i\<close>. The state is the list of pairs and the set of processed
  keys.
\<close>

fun pairs_inner ::
  "PhysicsBody list \<Rightarrow> nat \<Rightarrow> nat list \<Rightarrow> (nat \<times> nat) list \<times> string list \<Rightarrow>
   (nat \<times> nat) list \<times> string list" where
  "pairs_inner h a [] st = st"
| "pairs_inner h a (b # bs) (pairs, processed) =
     pairs_inner h a bs
       (if pairKey (h ! a) (h ! b) \<in> set processed then (pairs, processed)
        else (pairs @ [(a, b)], set_add (pairKey (h ! a) (h ! b)) processed))"

fun pairs_of_cell ::
  "PhysicsBody list \<Rightarrow> nat list \<Rightarrow> (nat \<times> nat) list \<times> string list \<Rightarrow>
   (nat \<times> nat) list \<times> string list" where
  "pairs_of_cell h [] st = st"
| "pairs_of_cell h (a # bs) st = pairs_of_cell h bs (pairs_inner h a bs st)"

definition getPotentialCollisions ::
  "PhysicsBody list \<Rightarrow> SpatialHash \<Rightarrow> (nat \<times> nat) list" where
  "getPotentialCollisions h sh =
     fst (fold (\<lambda>(cellKey, cellBodies) st. pairs_of_cell h cellBodies st) (grid sh) ([], []))"

section \<open>PhysicsEngine: the update\<close>

text \<open>One step of the loop of \<open>updateDynamicBodies\<close>, on the body it visits.\<close>

definition integrate_body :: "Vector2 \<Rightarrow> real \<Rightarrow> PhysicsBody \<Rightarrow> PhysicsBody option" where
  "integrate_body grav deltaTime b =
     (if \<not> enabled b then Some b
      else do {
        let v1 = (if useGravity b then add (velocity b) (multiply grav deltaTime)
                  else velocity b);
        ld \<leftarrow> js_pow (1 - linearDamping b) deltaTime;
        ad \<leftarrow> js_pow (1 - angularDamping b) deltaTime;
        let v2 = multiply v1 ld;
        let av = angularVelocity b * ad;
        let v3 = (if maxVelocity b > 0 then limit v2 (maxVelocity b) else v2);
        let deltaPos = multiply v3 deltaTime;
        Some (updateBounds
                (b\<lparr>velocity := v3, angularVelocity := av, position := add (position b) deltaPos,
                   rotation := rotation b + av * deltaTime\<rparr>))
      })"

fun integrate_all ::
  "Vector2 \<Rightarrow> real \<Rightarrow> PhysicsBody list \<Rightarrow> nat list \<Rightarrow> PhysicsBody list option" where
  "integrate_all grav deltaTime h [] = Some h"
| "integrate_all grav deltaTime h (r # rs) =
     do {
       b \<leftarrow> integrate_body grav deltaTime (h ! r);
       integrate_all grav deltaTime (h[r := b]) rs
     }"

definition updateDynamicBodies :: "real \<Rightarrow> PhysicsEngine \<Rightarrow> PhysicsEngine option" where
  "updateDynamicBodies deltaTime e =
     do {
       h \<leftarrow> integrate_all (gravity e) deltaTime (heap e) (dynamicBodies e);
       Some (e\<lparr>heap := h\<rparr>)
     }"

text \<open>
  The body of the loop of \<open>detectCollisions\<close> on one candidate pair; the state is the
  list of manifolds and the statistics. The collision events it emits go to the event bus
  and are not part of the engine's state.
\<close>

definition detect_pair ::
  "PhysicsBody list \<Rightarrow> nat \<times> nat \<Rightarrow> Collision list \<times> Stats \<Rightarrow> Collision list \<times> Stats" where
  "detect_pair h pair st =
     (let (a, b) = pair;
          (found, s) = st;
          s1 = s\<lparr>collisionChecks := collisionChecks s + 1\<rparr>
      in if a = b then (found, s1)
         else if body_type (h ! a) = ''static'' \<and> body_type (h ! b) = ''static'' then (found, s1)
         else if \<not> shouldCollide (h ! a) (h ! b) then (found, s1)
         else (case checkCollision h a b of
                 None \<Rightarrow> (found, s1)
               | Some collision \<Rightarrow>
                   (found @ [collision],
                    s1\<lparr>collisionsDetected := collisionsDetected s1 + 1\<rparr>)))"

definition detectCollisions :: "PhysicsEngine \<Rightarrow> PhysicsEngine" where
  "detectCollisions e =
     (let potentialPairs = getPotentialCollisions (heap e) (broadPhase e);
          (found, s) = fold (detect_pair (heap e)) potentialPairs ([], stats e)
      in e\<lparr>collisionPairs := found, stats := s\<rparr>)"

fun resolve_all :: "PhysicsBody list \<Rightarrow> Collision list \<Rightarrow> PhysicsBody list option" where
  "resolve_all h [] = Some h"
| "resolve_all h (c # cs) = do { h1 \<leftarrow> resolveCollision h c; resolve_all h1 cs }"

definition resolveCollisions :: "PhysicsEngine \<Rightarrow> PhysicsEngine option" where
  "resolveCollisions e =
     do {
       h \<leftarrow> resolve_all (heap e) (collisionPairs e);
       Some (e\<lparr>heap := h\<rparr>)
     }"

fun insert_enabled :: "PhysicsBody list \<Rightarrow> nat list \<Rightarrow> SpatialHash \<Rightarrow> SpatialHash option" where
  "insert_enabled h [] sh = Some sh"
| "insert_enabled h (r # rs) sh =
     (if enabled (h ! r) then do { sh1 \<leftarrow> insert_body h r sh; insert_enabled h rs sh1 }
      else insert_enabled h rs sh)"

definition updateSpatialHash :: "PhysicsEngine \<Rightarrow> PhysicsEngine option" where
  "updateSpatialHash e =
     do {
       sh \<leftarrow> insert_enabled (heap e) (map snd (bodies e)) (clear (broadPhase e));
       Some (e\<lparr>broadPhase := sh\<rparr>)
     }"

text \<open>
  \<open>update\<close>, in the order of the source: reset the statistics, integrate, detect, resolve,
  rebuild the spatial hash. The closing \<open>PHYSICS_UPDATE\<close> event goes to the event bus.
\<close>

definition update :: "real \<Rightarrow> PhysicsEngine \<Rightarrow> PhysicsEngine option" where
  "update deltaTime e =
     do {
       let e0 = e\<lparr>stats := (stats e)\<lparr>collisionChecks := 0, collisionsDetected := 0\<rparr>\<rparr>;
       e1 \<leftarrow> updateDynamicBodies deltaTime e0;
       let e2 = detectCollisions e1;
       e3 \<leftarrow> resolveCollisions e2;
       updateSpatialHash e3
     }"

section \<open>Predicates and concrete inputs of the properties\<close>

definition body_1_2 :: PhysicsBody where
  "body_1_2 = new_PhysicsBody (no_options\<lparr>o_collisionLayer := Some 1, o_collisionMask := Some 2\<rparr>) ''a''"

definition body_2_1 :: PhysicsBody where
  "body_2_1 = new_PhysicsBody (no_options\<lparr>o_collisionLayer := Some 2, o_collisionMask := Some 1\<rparr>) ''b''"

definition colliding_id_calls :: "Call list" where
  "colliding_id_calls = [CreateBody no_options ''a'', CreateBody no_options ''a'']"

definition sample_calls :: "Call list" where
  "sample_calls =
     [CreateBody no_options ''a'', CreateBody (no_options\<lparr>o_type := Some ''static''\<rparr>) ''b'',
      RemoveBody 0]"

definition negative_mass_options :: BodyOptions where
  "negative_mass_options = no_options\<lparr>o_mass := Some (- 5)\<rparr>"

definition zero_options :: BodyOptions where
  "zero_options = no_options\<lparr>o_mass := Some 0, o_collisionLayer := Some 0,
     o_linearDamping := Some 0, o_angularDamping := Some 0\<rparr>"

text \<open>A circle of radius 10 at (0, 0) and a circle of radius 10 at (15, 0).\<close>

definition two_circles :: "PhysicsBody list" where
  "two_circles =
     [new_PhysicsBody (no_options\<lparr>o_shape := Some (Circle 10)\<rparr>) ''a'',
      new_PhysicsBody (no_options\<lparr>o_position := Some (Vector2 15 0),
                                  o_shape := Some (Circle 10)\<rparr>) ''b'']"


text \<open>Two overlapping static circles.\<close>

definition two_static_circles :: "PhysicsBody list" where
  "two_static_circles =
     [new_PhysicsBody (no_options\<lparr>o_type := Some ''static'', o_shape := Some (Circle 10)\<rparr>) ''a'',
      new_PhysicsBody (no_options\<lparr>o_type := Some ''static'', o_position := Some (Vector2 15 0),
                                  o_shape := Some (Circle 10)\<rparr>) ''b'']"

text \<open>A kinematic circle of mass 1 at (0, 0) and a static circle at (15, 0), both of radius 10.\<close>

definition kinematic_and_static :: "PhysicsBody list" where
  "kinematic_and_static =
     [new_PhysicsBody (no_options\<lparr>o_type := Some ''kinematic'', o_shape := Some (Circle 10)\<rparr>) ''a'',
      new_PhysicsBody (no_options\<lparr>o_type := Some ''static'', o_position := Some (Vector2 15 0),
                                  o_shape := Some (Circle 10)\<rparr>) ''b'']"

text \<open>Two dynamic 32 by 32 rects at (0, 0) and (22, 0).\<close>

definition two_rects :: "PhysicsBody list" where
  "two_rects =
     [new_PhysicsBody no_options ''a'',
      new_PhysicsBody (no_options\<lparr>o_position := Some (Vector2 22 0)\<rparr>) ''b'']"

text \<open>
  Two bodies of mass 1 on the x axis, moving towards each other at speed 10; in the second
  pair the left body is kinematic.
\<close>

definition head_on :: "PhysicsBody list" where
  "head_on =
     [new_PhysicsBody (no_options\<lparr>o_velocity := Some (Vector2 10 0),
                                  o_shape := Some (Circle 10)\<rparr>) ''a'',
      new_PhysicsBody (no_options\<lparr>o_position := Some (Vector2 15 0),
                                  o_velocity := Some (Vector2 (- 10) 0),
                                  o_shape := Some (Circle 10)\<rparr>) ''b'']"

definition kinematic_head_on :: "PhysicsBody list" where
  "kinematic_head_on =
     [new_PhysicsBody (no_options\<lparr>o_velocity := Some (Vector2 10 0), o_type := Some ''kinematic'',
                                  o_shape := Some (Circle 10)\<rparr>) ''a'',
      new_PhysicsBody (no_options\<lparr>o_position := Some (Vector2 15 0),
                                  o_velocity := Some (Vector2 (- 10) 0),
                                  o_shape := Some (Circle 10)\<rparr>) ''b'']"

text \<open>
  The head-on pair with restitution 0 and the friction coefficients -1 and 1, which the
  constructor accepts as they are.
\<close>

definition negative_friction_head_on :: "PhysicsBody list" where
  "negative_friction_head_on =
     [new_PhysicsBody (no_options\<lparr>o_velocity := Some (Vector2 10 0),
                                  o_shape := Some (Circle 10),
                                  o_material := Some \<lparr>friction = - 1, restitution = 0, density = 1\<rparr>\<rparr>) ''a'',
      new_PhysicsBody (no_options\<lparr>o_position := Some (Vector2 15 0),
                                  o_velocity := Some (Vector2 (- 10) 0),
                                  o_shape := Some (Circle 10),
                                  o_material := Some \<lparr>friction = 1, restitution = 0, density = 1\<rparr>\<rparr>) ''b'']"

text \<open>A distance that is not NaN and not negative.\<close>

definition nonneg_num :: "jsnum \<Rightarrow> bool" where
  "nonneg_num d \<longleftrightarrow> js_le (Number 0) d"

text \<open>The bodies \<open>raycast\<close> tests: enabled, in the layer mask, and rect-shaped.\<close>

definition eligible :: "PhysicsBody list \<Rightarrow> int \<Rightarrow> nat \<Rightarrow> bool" where
  "eligible h layerMask r \<longleftrightarrow>
     enabled (h ! r) \<and> js_and (collisionLayer (h ! r)) layerMask \<noteq> 0 \<and> is_rect (shape (h ! r))"

text \<open>An engine with one rect body spanning x from 100 to 110 and y from -5 to 5.\<close>

definition ray_engine :: PhysicsEngine where
  "ray_engine =
     snd (createBody (no_options\<lparr>o_position := Some (Vector2 105 0), o_shape := Some (Rect 10 10)\<rparr>)
            ''a'' new_PhysicsEngine)"

text \<open>
  A dynamic circle of radius 10 at rest that ignores gravity, and a fresh engine in which
  two of them were created at (20, 20) and (35, 20); \<open>overlap_engine_after\<close> is that
  engine with both bodies entered in the cell (0, 0) of the spatial hash.
\<close>

definition resting_circle :: "real \<Rightarrow> real \<Rightarrow> BodyOptions" where
  "resting_circle px py =
     no_options\<lparr>o_position := Some (Vector2 px py), o_useGravity := Some False,
                o_shape := Some (Circle 10)\<rparr>"

definition overlap_engine :: PhysicsEngine where
  "overlap_engine =
     snd (createBody (resting_circle 35 20) ''b''
            (snd (createBody (resting_circle 20 20) ''a'' new_PhysicsEngine)))"

definition overlap_engine_after :: PhysicsEngine where
  "overlap_engine_after =
     overlap_engine\<lparr>broadPhase := \<lparr>cellSize = 64, grid = [((0, 0), [0, 1])]\<rparr>\<rparr>"

section \<open>Properties\<close>

subsection \<open>The collision filter\<close>

lemma js_and_nonzero_iff:
  "js_and a b \<noteq> 0 \<longleftrightarrow> (\<exists>n<32. bit a n \<and> bit b n)"
  unfolding js_and_def
  by (auto simp: bit_eq_iff bit_and_iff bit_word_of_int_iff)

text \<open>
  C4. \<open>shouldCollide\<close> admits a pair exactly when A's mask and B's layer have a nonzero
  bitwise AND or B's mask and A's layer have one, that is, when one body's mask shares a
  bit (of the low 32) with the other body's layer; a body with layer 1 and mask 2 and a
  body with layer 2 and mask 1 are admitted.
\<close>

theorem shouldCollide_symmetric_or:
  "(shouldCollide A B \<longleftrightarrow>
      js_and (collisionMask A) (collisionLayer B) \<noteq> 0 \<or>
      js_and (collisionMask B) (collisionLayer A) \<noteq> 0) \<and>
   (shouldCollide A B \<longleftrightarrow>
      (\<exists>n<32. bit (collisionMask A) n \<and> bit (collisionLayer B) n) \<or>
      (\<exists>n<32. bit (collisionMask B) n \<and> bit (collisionLayer A) n)) \<and>
   (collisionLayer A = 1 \<and> collisionMask A = 2 \<and> collisionLayer B = 2 \<and> collisionMask B = 1
      \<longrightarrow> shouldCollide A B)"
proof -
  have ex: "collisionLayer A = 1 \<Longrightarrow> collisionMask A = 2 \<Longrightarrow> collisionLayer B = 2
      \<Longrightarrow> collisionMask B = 1 \<Longrightarrow> shouldCollide A B"
    by (simp add: shouldCollide_def js_and_def)
  show ?thesis
    using ex by (simp add: shouldCollide_def js_and_nonzero_iff)
qed

lemma body_1_2_fields: "collisionLayer body_1_2 = 1" "collisionMask body_1_2 = 2"
  by (simp_all add: body_1_2_def new_PhysicsBody_def no_options_def updateBounds_def)

lemma body_2_1_fields: "collisionLayer body_2_1 = 2" "collisionMask body_2_1 = 1"
  by (simp_all add: body_2_1_def new_PhysicsBody_def no_options_def updateBounds_def)

theorem shouldCollide_symmetric_or_witness:
  "shouldCollide body_1_2 body_2_1 \<and>
   js_and (collisionMask body_1_2) (collisionLayer body_1_2) = 0 \<and>
   js_and (collisionMask body_2_1) (collisionLayer body_2_1) = 0"
  using shouldCollide_symmetric_or [of body_1_2 body_2_1]
  by (simp add: body_1_2_fields body_2_1_fields js_and_def)

subsection \<open>The body registry\<close>

lemma updateBounds_fields [simp]:
  "body_id (updateBounds b) = body_id b" "position (updateBounds b) = position b"
  "velocity (updateBounds b) = velocity b" "mass (updateBounds b) = mass b"
  "body_type (updateBounds b) = body_type b" "shape (updateBounds b) = shape b"
  "material (updateBounds b) = material b" "enabled (updateBounds b) = enabled b"
  "collisionLayer (updateBounds b) = collisionLayer b"
  "collisionMask (updateBounds b) = collisionMask b"
  "linearDamping (updateBounds b) = linearDamping b"
  "angularDamping (updateBounds b) = angularDamping b"
  "useGravity (updateBounds b) = useGravity b" "maxVelocity (updateBounds b) = maxVelocity b"
  "rotation (updateBounds b) = rotation b" "angularVelocity (updateBounds b) = angularVelocity b"
  by (simp_all add: updateBounds_def Let_def split: Shape.split)

lemma new_PhysicsBody_id [simp]: "body_id (new_PhysicsBody options rid) = rid"
  by (simp add: new_PhysicsBody_def)

lemma update_fresh: "k \<notin> fst ` set al \<Longrightarrow> AList.update k v al = al @ [(k, v)]"
  by (induction al) auto

lemma createBody_fst [simp]: "fst (createBody options rid e) = length (heap e)"
  by (simp add: createBody_def Let_def)

lemma createBody_heap [simp]:
  "heap (snd (createBody options rid e)) = heap e @ [new_PhysicsBody options rid]"
  by (simp add: createBody_def Let_def)

lemma createBody_bodies [simp]:
  "bodies (snd (createBody options rid e)) = AList.update rid (length (heap e)) (bodies e)"
  by (simp add: createBody_def Let_def)

lemma createBody_bodyCount [simp]:
  "bodyCount (stats (snd (createBody options rid e))) = bodyCount (stats e) + 1"
  by (simp add: createBody_def Let_def)

lemma createBody_staticBodies [simp]:
  "staticBodies (snd (createBody options rid e)) =
     (if body_type (new_PhysicsBody options rid) = ''static''
      then set_add (length (heap e)) (staticBodies e) else staticBodies e)"
  by (simp add: createBody_def Let_def)

lemma createBody_dynamicBodies [simp]:
  "dynamicBodies (snd (createBody options rid e)) =
     (if body_type (new_PhysicsBody options rid) = ''static''
      then dynamicBodies e else set_add (length (heap e)) (dynamicBodies e))"
  by (simp add: createBody_def Let_def)

lemma set_set_add [simp]: "set (set_add a s) = insert a (set s)"
  by (auto simp: set_add_def)

lemma set_set_delete [simp]: "set (set_delete a s) = set s - {a}"
  by (auto simp: set_delete_def)

lemma heap_wf_entry:
  "heap_wf e \<Longrightarrow> (i, r) \<in> set (bodies e) \<Longrightarrow> r < length (heap e) \<and> body_id (heap e ! r) = i"
  unfolding heap_wf_def by blast

lemma heap_wf_keys: "heap_wf e \<Longrightarrow> fst ` set (bodies e) \<subseteq> set (map body_id (heap e))"
proof
  fix k assume wf: "heap_wf e" and "k \<in> fst ` set (bodies e)"
  then obtain r where "(k, r) \<in> set (bodies e)" by auto
  with wf have "r < length (heap e)" "body_id (heap e ! r) = k"
    using heap_wf_entry by blast+
  then show "k \<in> set (map body_id (heap e))"
    by (metis length_map nth_map nth_mem)
qed

lemma heap_wf_refs: "heap_wf e \<Longrightarrow> r \<in> registered e \<Longrightarrow> r < length (heap e)"
  using heap_wf_entry by (auto simp: registered_def)

lemma heap_wf_distinct_refs: "heap_wf e \<Longrightarrow> distinct (map snd (bodies e))"
proof -
  assume wf: "heap_wf e"
  have "inj_on snd (set (bodies e))"
  proof (rule inj_onI)
    fix p q assume "p \<in> set (bodies e)" "q \<in> set (bodies e)" "snd p = snd q"
    moreover have "(fst p, snd p) \<in> set (bodies e)" "(fst q, snd q) \<in> set (bodies e)"
      using \<open>p \<in> set (bodies e)\<close> \<open>q \<in> set (bodies e)\<close> by simp_all
    ultimately show "p = q"
      using heap_wf_entry [OF wf, of "fst p" "snd p"] heap_wf_entry [OF wf, of "fst q" "snd q"]
      by (simp add: prod_eq_iff)
  qed
  moreover from wf have "distinct (bodies e)"
    using distinct_map heap_wf_def by blast
  ultimately show ?thesis by (simp add: distinct_map)
qed

lemma createBody_heap_wf:
  assumes "heap_wf e" "rid \<notin> set (map body_id (heap e))"
  shows "heap_wf (snd (createBody options rid e))"
proof -
  have fresh: "rid \<notin> fst ` set (bodies e)"
    using assms heap_wf_keys by blast
  show ?thesis
    unfolding heap_wf_def
  proof (intro conjI allI impI)
    fix i r assume "(i, r) \<in> set (bodies (snd (createBody options rid e)))"
    then have "(i, r) \<in> set (bodies e) \<or> (i = rid \<and> r = length (heap e))"
      using fresh by (auto simp: update_fresh)
    then have "(r < length (heap e) \<and> body_id (heap e ! r) = i) \<or> (i = rid \<and> r = length (heap e))"
      using heap_wf_entry [OF assms(1), of i r] by blast
    then show "r < length (heap (snd (createBody options rid e)))"
      and "body_id (heap (snd (createBody options rid e)) ! r) = i"
      by (auto simp: nth_append)
  next
    show "distinct (map fst (bodies (snd (createBody options rid e))))"
      using assms(1) fresh by (simp add: update_fresh heap_wf_def)
  next
    show "distinct (map body_id (heap (snd (createBody options rid e))))"
      using assms by (simp add: heap_wf_def)
  qed
qed

lemma createBody_registry_inv:
  assumes "heap_wf e" "registry_inv e" "rid \<notin> set (map body_id (heap e))"
  shows "registry_inv (snd (createBody options rid e))"
proof -
  have fresh: "rid \<notin> fst ` set (bodies e)"
    using assms heap_wf_keys by blast
  have new: "length (heap e) \<notin> registered e"
    using assms(1) heap_wf_refs by blast
  have fin: "finite (registered e)" by (simp add: registered_def)
  have reg: "registered (snd (createBody options rid e)) = insert (length (heap e)) (registered e)"
    using fresh by (simp add: registered_def update_fresh)
  have old: "\<And>r. r \<in> registered e \<Longrightarrow> (heap e @ [new_PhysicsBody options rid]) ! r = heap e ! r"
    using assms(1) heap_wf_refs by (simp add: nth_append)
  show ?thesis
    unfolding registry_inv_def reg
    using assms(2) new fin fresh old
    by (auto simp: registry_inv_def update_fresh)
qed

lemma removeBody_unknown:
  "map_of (bodies e) (body_id (heap e ! r)) = None \<Longrightarrow> removeBody r e = e"
  by (simp add: removeBody_def)

lemma removeBody_known:
  "map_of (bodies e) (body_id (heap e ! r)) \<noteq> None \<Longrightarrow>
   removeBody r e =
     e\<lparr>bodies := AList.delete (body_id (heap e ! r)) (bodies e),
       staticBodies := set_delete r (staticBodies e),
       dynamicBodies := set_delete r (dynamicBodies e),
       stats := (stats e)\<lparr>bodyCount := bodyCount (stats e) - 1\<rparr>\<rparr>"
  by (simp add: removeBody_def)

lemma set_delete_key: "set (AList.delete k al) = {p \<in> set al. fst p \<noteq> k}"
  by (induction al) auto

lemma length_delete_key:
  "distinct (map fst al) \<Longrightarrow> (k, v) \<in> set al \<Longrightarrow> Suc (length (AList.delete k al)) = length al"
proof (induction al)
  case Nil
  then show ?case by simp
next
  case (Cons p al)
  show ?case
  proof (cases "fst p = k")
    case True
    with Cons.prems have "k \<notin> fst ` set al" by auto
    then have "AList.delete k al = al"
      by (induction al) auto
    with True show ?thesis by (cases p) simp
  next
    case False
    with Cons show ?thesis by (cases p) auto
  qed
qed

lemma heap_wf_known_entry:
  assumes wf: "heap_wf e" and r: "r < length (heap e)"
    and known: "map_of (bodies e) (body_id (heap e ! r)) \<noteq> None"
  shows "(body_id (heap e ! r), r) \<in> set (bodies e)"
proof -
  from known obtain r' where r': "(body_id (heap e ! r), r') \<in> set (bodies e)"
    by (auto dest: map_of_SomeD)
  with wf have "r' < length (heap e)" "body_id (heap e ! r') = body_id (heap e ! r)"
    using heap_wf_entry by blast+
  moreover from wf have "distinct (map body_id (heap e))"
    by (simp add: heap_wf_def)
  ultimately have "r' = r"
    using r by (metis length_map nth_eq_iff_index_eq nth_map)
  with r' show ?thesis by simp
qed

lemma registered_delete:
  assumes wf: "heap_wf e" and entry: "(i, r) \<in> set (bodies e)"
  shows "snd ` set (AList.delete i (bodies e)) = registered e - {r}"
proof -
  have keys: "distinct (map fst (bodies e))" using wf by (simp add: heap_wf_def)
  have refs: "distinct (map snd (bodies e))" using wf by (rule heap_wf_distinct_refs)
  have "\<And>p. p \<in> set (bodies e) \<Longrightarrow> (fst p \<noteq> i) = (snd p \<noteq> r)"
  proof -
    fix p assume p: "p \<in> set (bodies e)"
    have "fst p = i \<Longrightarrow> p = (i, r)"
      using keys p entry by (metis eq_key_imp_eq_value prod.collapse)
    moreover have "snd p = r \<Longrightarrow> p = (i, r)"
      using refs p entry by (metis distinct_map inj_onD snd_conv)
    ultimately show "(fst p \<noteq> i) = (snd p \<noteq> r)"
      by (metis fst_conv snd_conv)
  qed
  then show ?thesis
    by (auto simp: set_delete_key registered_def image_iff)
qed

lemma removeBody_heap_wf:
  assumes "heap_wf e"
  shows "heap_wf (removeBody r e)"
proof (cases "map_of (bodies e) (body_id (heap e ! r)) = None")
  case True
  with assms show ?thesis by (simp add: removeBody_unknown)
next
  case False
  then show ?thesis
    using assms
    by (auto simp: removeBody_known heap_wf_def set_delete_key distinct_delete)
qed

lemma removeBody_registry_inv:
  assumes wf: "heap_wf e" and inv: "registry_inv e" and r: "r < length (heap e)"
  shows "registry_inv (removeBody r e)"
proof (cases "map_of (bodies e) (body_id (heap e ! r)) = None")
  case True
  with inv show ?thesis by (simp add: removeBody_unknown)
next
  case False
  have entry: "(body_id (heap e ! r), r) \<in> set (bodies e)"
    using wf r False by (rule heap_wf_known_entry)
  have reg: "registered (removeBody r e) = registered e - {r}"
    using registered_delete [OF wf entry] False
    by (simp add: removeBody_known registered_def)
  have mem: "r \<in> registered e"
    using entry by (force simp: registered_def)
  have fin: "finite (registered e)" by (simp add: registered_def)
  have "0 < card (registered e)"
    using mem fin by (auto simp: card_gt_0_iff)
  then have card: "int (card (registered e - {r})) = int (card (registered e)) - 1"
    using mem fin by (simp add: card_Diff_singleton of_nat_diff)
  have len: "int (length (AList.delete (body_id (heap e ! r)) (bodies e))) = int (length (bodies e)) - 1"
    using length_delete_key [OF _ entry] wf by (simp add: heap_wf_def)
  show ?thesis
    unfolding registry_inv_def reg
    using inv False card len
    by (auto simp: registry_inv_def removeBody_known)
qed

lemma new_engine_ok: "heap_wf new_PhysicsEngine \<and> registry_inv new_PhysicsEngine"
  by (simp add: heap_wf_def registry_inv_def registered_def new_PhysicsEngine_def)

lemma run_preserves:
  "heap_wf e \<Longrightarrow> registry_inv e \<Longrightarrow> fresh_calls cs e \<Longrightarrow>
   heap_wf (run cs e) \<and> registry_inv (run cs e)"
proof (induction cs e rule: run.induct)
  case (1 e)
  then show ?case by simp
next
  case (2 options rid cs e)
  then show ?case
    using createBody_heap_wf createBody_registry_inv by simp
next
  case (3 r cs e)
  then show ?case
    using removeBody_heap_wf removeBody_registry_inv by simp
qed

lemma removeBody_heap [simp]: "heap (removeBody r e) = heap e"
  by (simp add: removeBody_def Let_def)

text \<open>
  C10 (as amended). The registry invariant holds in a fresh engine and is preserved by
  \<open>createBody\<close> when the id drawn for the new body differs from the id of every body
  created so far, and by \<open>removeBody\<close> on a body this engine created; so it holds after
  every sequence of such calls: each registered body is in exactly one of the two type
  sets (the static set when its type is static, the dynamic set otherwise), both sets
  hold registered bodies only, and \<open>bodyCount\<close> is the number of registered bodies.
\<close>

theorem registry_invariant_fresh_ids:
  "heap_wf new_PhysicsEngine \<and> registry_inv new_PhysicsEngine \<and>
   (heap_wf e \<and> registry_inv e \<and> rid \<notin> set (map body_id (heap e)) \<longrightarrow>
      heap_wf (snd (createBody options rid e)) \<and> registry_inv (snd (createBody options rid e))) \<and>
   (heap_wf e \<and> registry_inv e \<and> r < length (heap e) \<longrightarrow>
      heap_wf (removeBody r e) \<and> registry_inv (removeBody r e)) \<and>
   (fresh_calls cs new_PhysicsEngine \<longrightarrow> registry_inv (run cs new_PhysicsEngine))"
  using new_engine_ok createBody_heap_wf createBody_registry_inv removeBody_heap_wf
    removeBody_registry_inv run_preserves [of new_PhysicsEngine cs]
  by blast

theorem registry_invariant_fresh_ids_witness:
  "fresh_calls sample_calls new_PhysicsEngine \<and> registry_inv (run sample_calls new_PhysicsEngine)"
proof -
  have h: "fresh_calls sample_calls new_PhysicsEngine"
    by (simp add: sample_calls_def new_PhysicsEngine_def)
  with registry_invariant_fresh_ids [of new_PhysicsEngine "''a''" no_options 0 sample_calls]
  show ?thesis by blast
qed

text \<open>
  Two bodies that draw the same id: the second \<open>bodies.set\<close> overwrites the entry of the
  first, which stays in the dynamic set, and \<open>bodyCount\<close> is 2 for one registered body.
\<close>

theorem registry_invariant_counterexample:
  "bodies (run colliding_id_calls new_PhysicsEngine) = [(''a'', 1)] \<and>
   dynamicBodies (run colliding_id_calls new_PhysicsEngine) = [0, 1] \<and>
   bodyCount (stats (run colliding_id_calls new_PhysicsEngine)) = 2 \<and>
   \<not> registry_inv (run colliding_id_calls new_PhysicsEngine)"
proof -
  have ty: "body_type (new_PhysicsBody no_options ''a'') = ''dynamic''"
    by (simp add: new_PhysicsBody_def no_options_def)
  have 1: "bodies (run colliding_id_calls new_PhysicsEngine) = [(''a'', 1)]"
    by (simp add: colliding_id_calls_def new_PhysicsEngine_def)
  have 2: "dynamicBodies (run colliding_id_calls new_PhysicsEngine) = [0, 1]"
    by (simp add: colliding_id_calls_def ty set_add_def) (simp add: new_PhysicsEngine_def)
  have 3: "bodyCount (stats (run colliding_id_calls new_PhysicsEngine)) = 2"
    by (simp add: colliding_id_calls_def new_PhysicsEngine_def)
  from 1 3 have "\<not> registry_inv (run colliding_id_calls new_PhysicsEngine)"
    by (simp add: registry_inv_def)
  with 1 2 3 show ?thesis by blast
qed

text \<open>
  C7 (as amended). \<open>createBody\<close> validates nothing and never fails: for every options
  record it registers the new body under its id, puts it in a type set and counts it; the
  mass is stored as given unless it is omitted or 0, so a negative mass is kept.
\<close>

theorem createBody_always_registers:
  "map_of (bodies (snd (createBody options rid e))) rid = Some (fst (createBody options rid e)) \<and>
   heap (snd (createBody options rid e)) ! fst (createBody options rid e) =
     new_PhysicsBody options rid \<and>
   bodyCount (stats (snd (createBody options rid e))) = bodyCount (stats e) + 1 \<and>
   (fst (createBody options rid e) \<in> set (staticBodies (snd (createBody options rid e))) \<or>
    fst (createBody options rid e) \<in> set (dynamicBodies (snd (createBody options rid e)))) \<and>
   mass (new_PhysicsBody options rid) = js_or (o_mass options) 1 \<and>
   (o_mass options = Some m \<and> m < 0 \<longrightarrow>
      mass (heap (snd (createBody options rid e)) ! fst (createBody options rid e)) = m)"
  by (auto simp: update_conv' new_PhysicsBody_def)

theorem createBody_always_registers_witness:
  "o_mass negative_mass_options = Some (- 5) \<and> (- 5 :: real) < 0 \<and>
   mass (heap (snd (createBody negative_mass_options ''a'' new_PhysicsEngine)) !
         fst (createBody negative_mass_options ''a'' new_PhysicsEngine)) = - 5"
  using createBody_always_registers [of negative_mass_options "''a''" new_PhysicsEngine "- 5"]
  by (simp add: negative_mass_options_def)

text \<open>A body asked for with mass \<open>-5\<close> is registered, with mass \<open>-5\<close>.\<close>

theorem createBody_negative_mass_counterexample:
  "fst (createBody negative_mass_options ''a'' new_PhysicsEngine) = 0 \<and>
   bodies (snd (createBody negative_mass_options ''a'' new_PhysicsEngine)) = [(''a'', 0)] \<and>
   dynamicBodies (snd (createBody negative_mass_options ''a'' new_PhysicsEngine)) = [0] \<and>
   bodyCount (stats (snd (createBody negative_mass_options ''a'' new_PhysicsEngine))) = 1 \<and>
   mass (heap (snd (createBody negative_mass_options ''a'' new_PhysicsEngine)) ! 0) = - 5"
proof -
  have ty: "body_type (new_PhysicsBody negative_mass_options ''a'') = ''dynamic''"
    by (simp add: new_PhysicsBody_def negative_mass_options_def no_options_def)
  have m: "mass (new_PhysicsBody negative_mass_options ''a'') = - 5"
    by (simp add: new_PhysicsBody_def negative_mass_options_def no_options_def)
  show ?thesis
    by (simp add: ty m set_add_def new_PhysicsEngine_def)
qed

text \<open>
  C9. A mass, collision layer, linear damping or angular damping given as 0 builds the
  same body as the field left out: the defaults 1, 1, 0.01 and 0.05 are taken. No body
  that \<open>createBody\<close> stores has mass 0, collision layer 0, or linear or angular damping 0.
\<close>

theorem zero_fields_take_defaults:
  "new_PhysicsBody (options\<lparr>o_mass := Some 0\<rparr>) rid = new_PhysicsBody (options\<lparr>o_mass := None\<rparr>) rid \<and>
   new_PhysicsBody (options\<lparr>o_collisionLayer := Some 0\<rparr>) rid =
     new_PhysicsBody (options\<lparr>o_collisionLayer := None\<rparr>) rid \<and>
   new_PhysicsBody (options\<lparr>o_linearDamping := Some 0\<rparr>) rid =
     new_PhysicsBody (options\<lparr>o_linearDamping := None\<rparr>) rid \<and>
   new_PhysicsBody (options\<lparr>o_angularDamping := Some 0\<rparr>) rid =
     new_PhysicsBody (options\<lparr>o_angularDamping := None\<rparr>) rid \<and>
   mass (new_PhysicsBody (options\<lparr>o_mass := Some 0\<rparr>) rid) = 1 \<and>
   collisionLayer (new_PhysicsBody (options\<lparr>o_collisionLayer := Some 0\<rparr>) rid) = 1 \<and>
   linearDamping (new_PhysicsBody (options\<lparr>o_linearDamping := Some 0\<rparr>) rid) = 1 / 100 \<and>
   angularDamping (new_PhysicsBody (options\<lparr>o_angularDamping := Some 0\<rparr>) rid) = 5 / 100 \<and>
   mass (heap (snd (createBody options rid e)) ! fst (createBody options rid e)) \<noteq> 0 \<and>
   collisionLayer (heap (snd (createBody options rid e)) ! fst (createBody options rid e)) \<noteq> 0 \<and>
   linearDamping (heap (snd (createBody options rid e)) ! fst (createBody options rid e)) \<noteq> 0 \<and>
   angularDamping (heap (snd (createBody options rid e)) ! fst (createBody options rid e)) \<noteq> 0"
proof -
  have nz: "\<And>v d. d \<noteq> 0 \<Longrightarrow> js_or v d \<noteq> 0"
    by (case_tac v) auto
  have nzi: "\<And>v d. d \<noteq> 0 \<Longrightarrow> js_or_int v d \<noteq> 0"
    by (case_tac v) auto
  show ?thesis
    by (simp add: new_PhysicsBody_def nz nzi)
qed

theorem zero_fields_take_defaults_witness:
  "mass (heap (snd (createBody zero_options ''a'' new_PhysicsEngine)) ! 0) = 1 \<and>
   collisionLayer (heap (snd (createBody zero_options ''a'' new_PhysicsEngine)) ! 0) = 1 \<and>
   linearDamping (heap (snd (createBody zero_options ''a'' new_PhysicsEngine)) ! 0) = 1 / 100 \<and>
   angularDamping (heap (snd (createBody zero_options ''a'' new_PhysicsEngine)) ! 0) = 5 / 100 \<and>
   mass (heap (snd (createBody zero_options ''a'' new_PhysicsEngine)) !
         fst (createBody zero_options ''a'' new_PhysicsEngine)) \<noteq> 0"
  using zero_fields_take_defaults [of zero_options "''a''" new_PhysicsEngine]
  by (simp add: zero_options_def new_PhysicsBody_def no_options_def new_PhysicsEngine_def)

subsection \<open>The narrow phase\<close>

lemma Vector2_sel [simp]: "x (Vector2 a b) = a" "y (Vector2 a b) = b"
  by (simp_all add: Vector2_def)

lemma abs_le_sqrt_sum: "\<bar>a\<bar> \<le> sqrt (a * a + b * b)" "\<bar>b\<bar> \<le> sqrt (a * a + b * b)"
proof -
  have "sqrt (a * a) \<le> sqrt (a * a + b * b)" "sqrt (b * b) \<le> sqrt (a * a + b * b)"
    by (rule real_sqrt_le_mono, simp)+
  then show "\<bar>a\<bar> \<le> sqrt (a * a + b * b)" "\<bar>b\<bar> \<le> sqrt (a * a + b * b)"
    by simp_all
qed

lemma distanceTo_abs:
  "\<bar>x v - x w\<bar> \<le> distanceTo v w" "\<bar>y v - y w\<bar> \<le> distanceTo v w"
  by (simp_all add: distanceTo_def Let_def abs_le_sqrt_sum)

lemma distanceTo_magnitude: "magnitude (subtract w v) = distanceTo v w"
proof -
  have "(x w - x v) * (x w - x v) = (x v - x w) * (x v - x w)"
       "(y w - y v) * (y w - y v) = (y v - y w) * (y v - y w)"
    by (simp_all add: algebra_simps)
  then show ?thesis
    by (simp add: magnitude_def subtract_def distanceTo_def Let_def)
qed

lemma normalize_unit:
  assumes "0 < magnitude v"
  shows "normalize v = Vector2 (x v / magnitude v) (y v / magnitude v)"
    and "magnitude (normalize v) = 1"
proof -
  let ?m = "magnitude v"
  show n: "normalize v = Vector2 (x v / ?m) (y v / ?m)"
    using assms by (simp add: normalize_def Let_def divide_def)
  have sq: "?m * ?m = x v * x v + y v * y v"
    unfolding magnitude_def
    by (metis add_nonneg_nonneg real_sqrt_mult_self abs_of_nonneg zero_le_square real_sqrt_ge_zero)
  have "x v / ?m * (x v / ?m) + y v / ?m * (y v / ?m) = (x v * x v + y v * y v) / (?m * ?m)"
    by (simp add: add_divide_distrib)
  also have "\<dots> = (?m * ?m) / (?m * ?m)" by (simp only: sq)
  also have "\<dots> = 1" using assms by simp
  finally show "magnitude (normalize v) = 1"
    by (simp add: n magnitude_def)
qed

lemma circle_bounds_overlap:
  assumes "shape A = Circle r1" "shape B = Circle r2"
    and "bounds A = bounds (updateBounds A)" "bounds B = bounds (updateBounds B)"
    and "distanceTo (position A) (position B) < r1 + r2"
  shows "aabbOverlap (bounds A) (bounds B)"
proof -
  have "\<bar>x (position A) - x (position B)\<bar> < r1 + r2" "\<bar>y (position A) - y (position B)\<bar> < r1 + r2"
    using distanceTo_abs [of "position A" "position B"] assms(5) by linarith+
  moreover have "bounds (updateBounds A) =
      \<lparr>left = x (position A) - r1, top_b = y (position A) - r1,
       right = x (position A) + r1, bottom = y (position A) + r1\<rparr>"
    using assms(1) by (simp add: updateBounds_def)
  moreover have "bounds (updateBounds B) =
      \<lparr>left = x (position B) - r2, top_b = y (position B) - r2,
       right = x (position B) + r2, bottom = y (position B) + r2\<rparr>"
    using assms(2) by (simp add: updateBounds_def)
  ultimately show ?thesis
    using assms(3,4) by (simp add: aabbOverlap_def) linarith
qed

lemma circleCircleCollision_eq:
  assumes "shape (h ! a) = Circle r1" "shape (h ! b) = Circle r2"
  shows "circleCircleCollision h a b =
     (if distanceTo (position (h ! a)) (position (h ! b)) < r1 + r2
      then Some \<lparr>bodyA = a, bodyB = b,
                 normal = normalize (subtract (position (h ! b)) (position (h ! a))),
                 penetration = r1 + r2 - distanceTo (position (h ! a)) (position (h ! b)),
                 contactPoint = add (position (h ! a))
                   (multiply (normalize (subtract (position (h ! b)) (position (h ! a)))) r1)\<rparr>
      else None)"
  using assms by (simp add: circleCircleCollision_def Let_def)

lemma checkCollision_circles:
  assumes "shape (h ! a) = Circle r1" "shape (h ! b) = Circle r2"
    and "bounds (h ! a) = bounds (updateBounds (h ! a))"
    and "bounds (h ! b) = bounds (updateBounds (h ! b))"
  shows "checkCollision h a b = circleCircleCollision h a b"
proof (cases "distanceTo (position (h ! a)) (position (h ! b)) < r1 + r2")
  case True
  then have "aabbOverlap (bounds (h ! a)) (bounds (h ! b))"
    using assms by (rule circle_bounds_overlap [rotated 4])
  then show ?thesis
    using assms(1,2) by (simp add: checkCollision_def)
next
  case False
  then have "circleCircleCollision h a b = None"
    using assms(1,2) by (simp add: circleCircleCollision_eq)
  then show ?thesis
    using assms(1,2) by (simp add: checkCollision_def)
qed

lemma two_circles_facts:
  "shape (two_circles ! 0) = Circle 10" "shape (two_circles ! Suc 0) = Circle 10"
  "position (two_circles ! 0) = Vector2 0 0" "position (two_circles ! Suc 0) = Vector2 15 0"
  "bounds (two_circles ! 0) = bounds (updateBounds (two_circles ! 0))"
  "bounds (two_circles ! Suc 0) = bounds (updateBounds (two_circles ! Suc 0))"
  by (simp_all add: two_circles_def new_PhysicsBody_def no_options_def updateBounds_def)

lemma two_circles_distance: "distanceTo (Vector2 0 0) (Vector2 15 0) = 15"
proof -
  have "sqrt (15 * 15) = (15 :: real)" by (simp only: real_sqrt_abs2)
  then show ?thesis by (simp add: distanceTo_def)
qed






subsection \<open>The resolver: zero total inverse mass\<close>

lemma js_div_Some [simp]: "b \<noteq> 0 \<Longrightarrow> js_div a b = Some (a / b)"
  by (simp add: js_div_def)

lemma js_sqrt_Some [simp]: "0 \<le> a \<Longrightarrow> js_sqrt a = Some (sqrt a)"
  by (simp add: js_sqrt_def)

lemma getInverseMass_static: "body_type b = ''static'' \<Longrightarrow> getInverseMass b = Some 0"
  by (simp add: getInverseMass_def)

lemma getInverseMass_Some_zero:
  "getInverseMass b = Some 0 \<longleftrightarrow> body_type b = ''static''"
  by (simp add: getInverseMass_def js_div_def)

lemma resolvePosition_zero:
  "getInverseMass (h ! a) = Some invA \<Longrightarrow> getInverseMass (h ! b) = Some invB \<Longrightarrow>
   invA + invB = 0 \<Longrightarrow> resolvePosition h a b nrm pen = Some h"
  by (simp add: resolvePosition_def)

lemma applyFriction_zero:
  "getInverseMass (h ! a) = Some invA \<Longrightarrow> getInverseMass (h ! b) = Some invB \<Longrightarrow>
   invA + invB = 0 \<Longrightarrow> applyFriction h a b nrm j = Some h"
  by (simp add: applyFriction_def Let_def)

lemma resolveVelocity_zero:
  "getInverseMass (h ! a) = Some invA \<Longrightarrow> getInverseMass (h ! b) = Some invB \<Longrightarrow>
   invA + invB = 0 \<Longrightarrow> resolveVelocity h a b nrm = Some h"
  by (simp add: resolveVelocity_def Let_def)

text \<open>
  C5. When the inverse masses of the two bodies of a manifold add up to zero (in
  particular when both are zero), positional correction, velocity resolution, friction and
  the resolution of the whole manifold each return before they divide by the total
  inverse mass and leave the heap, so every body's position and velocity, as it was: no
  NaN and no infinity is produced.
\<close>

theorem zero_total_inverse_mass_skips:
  "getInverseMass (h ! a) = Some invA \<and> getInverseMass (h ! b) = Some invB \<and> invA + invB = 0 \<longrightarrow>
     resolvePosition h a b nrm pen = Some h \<and>
     resolveVelocity h a b nrm = Some h \<and>
     applyFriction h a b nrm j = Some h \<and>
     resolveCollision h \<lparr>bodyA = a, bodyB = b, normal = nrm, penetration = pen,
                         contactPoint = cp\<rparr> = Some h"
  by (simp add: resolvePosition_zero resolveVelocity_zero applyFriction_zero resolveCollision_def)

lemma two_static_circles_types:
  "body_type (two_static_circles ! 0) = ''static''"
  "body_type (two_static_circles ! Suc 0) = ''static''"
  by (simp_all add: two_static_circles_def new_PhysicsBody_def no_options_def updateBounds_def)

theorem zero_total_inverse_mass_skips_witness:
  "getInverseMass (two_static_circles ! 0) = Some 0 \<and>
   getInverseMass (two_static_circles ! Suc 0) = Some 0 \<and>
   resolveCollision two_static_circles
     \<lparr>bodyA = 0, bodyB = Suc 0, normal = Vector2 1 0, penetration = 5,
      contactPoint = Vector2 10 0\<rparr> = Some two_static_circles"
  using zero_total_inverse_mass_skips [of two_static_circles 0 0 "Suc 0" 0 "Vector2 1 0" 5 0 "Vector2 10 0"]
  by (simp add: getInverseMass_static two_static_circles_types)

subsection \<open>The resolver: positional correction\<close>

lemma resolvePosition_eq:
  assumes "a \<noteq> b" "getInverseMass (h ! a) = Some invA" "getInverseMass (h ! b) = Some invB"
    and "invA + invB \<noteq> 0"
  shows "resolvePosition h a b nrm pen =
     Some (h[a := (if body_type (h ! a) = ''dynamic''
                   then updateBounds ((h ! a)\<lparr>position := subtract (position (h ! a))
                          (multiply (multiply nrm (pen / (invA + invB) * (8 / 10))) invA)\<rparr>)
                   else h ! a),
             b := (if body_type (h ! b) = ''dynamic''
                   then updateBounds ((h ! b)\<lparr>position := add (position (h ! b))
                          (multiply (multiply nrm (pen / (invA + invB) * (8 / 10))) invB)\<rparr>)
                   else h ! b)])"
proof -
  have id: "\<And>X. (h[a := X])[b := h ! b] = h[a := X]"
    using assms(1) by (metis list_update_id nth_list_update_neq)
  show ?thesis
    using assms by (simp add: resolvePosition_def Let_def id)
qed

lemma subtract_multiply_zero [simp]: "subtract p (multiply v 0) = p" "add p (multiply v 0) = p"
  by (simp_all add: subtract_def add_def multiply_def Vector2_def)

text \<open>
  C2 (as amended). For a manifold of two distinct bodies whose total inverse mass is not
  zero, positional correction moves each body whose type is dynamic along the normal by
  (penetration / total inverse mass * 0.8) times that body's inverse mass, A against the
  normal and B along it, and refreshes its cached bounds; a body of any other type
  (static, kinematic) and every other body stays as it was.
\<close>

theorem positional_correction_dynamic_only:
  "a \<noteq> b \<and> a < length h \<and> b < length h \<and>
   getInverseMass (h ! a) = Some invA \<and> getInverseMass (h ! b) = Some invB \<and> invA + invB \<noteq> 0 \<longrightarrow>
     (\<exists>h'. resolvePosition h a b nrm pen = Some h' \<and> length h' = length h \<and>
        (\<forall>k. k \<noteq> a \<and> k \<noteq> b \<longrightarrow> h' ! k = h ! k) \<and>
        (body_type (h ! a) = ''dynamic'' \<longrightarrow>
           h' ! a = updateBounds ((h ! a)\<lparr>position := subtract (position (h ! a))
                      (multiply (multiply nrm (pen / (invA + invB) * (8 / 10))) invA)\<rparr>)) \<and>
        (body_type (h ! a) \<noteq> ''dynamic'' \<longrightarrow> h' ! a = h ! a) \<and>
        (body_type (h ! b) = ''dynamic'' \<longrightarrow>
           h' ! b = updateBounds ((h ! b)\<lparr>position := add (position (h ! b))
                      (multiply (multiply nrm (pen / (invA + invB) * (8 / 10))) invB)\<rparr>)) \<and>
        (body_type (h ! b) \<noteq> ''dynamic'' \<longrightarrow> h' ! b = h ! b))"
proof (intro impI, elim conjE)
  assume ab: "a \<noteq> b" and la: "a < length h" and lb: "b < length h"
    and ia: "getInverseMass (h ! a) = Some invA" and ib: "getInverseMass (h ! b) = Some invB"
    and tot: "invA + invB \<noteq> 0"
  let ?q = "pen / (invA + invB) * (8 / 10)"
  let ?A = "if body_type (h ! a) = ''dynamic''
            then updateBounds ((h ! a)\<lparr>position := subtract (position (h ! a))
                   (multiply (multiply nrm ?q) invA)\<rparr>)
            else h ! a"
  let ?B = "if body_type (h ! b) = ''dynamic''
            then updateBounds ((h ! b)\<lparr>position := add (position (h ! b))
                   (multiply (multiply nrm ?q) invB)\<rparr>)
            else h ! b"
  let ?h = "h[a := ?A, b := ?B]"
  have res: "resolvePosition h a b nrm pen = Some ?h"
    using ab ia ib tot by (rule resolvePosition_eq)
  have ha: "?h ! a = ?A" using ab la by simp
  have hb: "?h ! b = ?B" using lb by simp
  show "\<exists>h'. resolvePosition h a b nrm pen = Some h' \<and> length h' = length h \<and>
        (\<forall>k. k \<noteq> a \<and> k \<noteq> b \<longrightarrow> h' ! k = h ! k) \<and>
        (body_type (h ! a) = ''dynamic'' \<longrightarrow>
           h' ! a = updateBounds ((h ! a)\<lparr>position := subtract (position (h ! a))
                      (multiply (multiply nrm ?q) invA)\<rparr>)) \<and>
        (body_type (h ! a) \<noteq> ''dynamic'' \<longrightarrow> h' ! a = h ! a) \<and>
        (body_type (h ! b) = ''dynamic'' \<longrightarrow>
           h' ! b = updateBounds ((h ! b)\<lparr>position := add (position (h ! b))
                      (multiply (multiply nrm ?q) invB)\<rparr>)) \<and>
        (body_type (h ! b) \<noteq> ''dynamic'' \<longrightarrow> h' ! b = h ! b)"
  proof (intro exI conjI)
    show "resolvePosition h a b nrm pen = Some ?h" by (rule res)
    show "length ?h = length h" by simp
    show "\<forall>k. k \<noteq> a \<and> k \<noteq> b \<longrightarrow> ?h ! k = h ! k" by simp
    show "body_type (h ! a) = ''dynamic'' \<longrightarrow>
           ?h ! a = updateBounds ((h ! a)\<lparr>position := subtract (position (h ! a))
                      (multiply (multiply nrm ?q) invA)\<rparr>)"
      unfolding ha by simp
    show "body_type (h ! a) \<noteq> ''dynamic'' \<longrightarrow> ?h ! a = h ! a"
      unfolding ha by simp
    show "body_type (h ! b) = ''dynamic'' \<longrightarrow>
           ?h ! b = updateBounds ((h ! b)\<lparr>position := add (position (h ! b))
                      (multiply (multiply nrm ?q) invB)\<rparr>)"
      unfolding hb by simp
    show "body_type (h ! b) \<noteq> ''dynamic'' \<longrightarrow> ?h ! b = h ! b"
      unfolding hb by simp
  qed
qed

lemma two_circles_masses:
  "getInverseMass (two_circles ! 0) = Some 1" "getInverseMass (two_circles ! Suc 0) = Some 1"
  "body_type (two_circles ! 0) = ''dynamic''" "body_type (two_circles ! Suc 0) = ''dynamic''"
  by (simp_all add: two_circles_def new_PhysicsBody_def no_options_def getInverseMass_def)

lemma two_circles_manifold:
  "circleCircleCollision two_circles 0 (Suc 0) =
     Some \<lparr>bodyA = 0, bodyB = Suc 0, normal = Vector2 1 0, penetration = 5,
           contactPoint = Vector2 10 0\<rparr>"
proof -
  have "normalize (Vector2 15 0) = Vector2 1 0"
    using normalize_unit(1) [of "Vector2 15 0"] two_circles_distance
    by (simp add: magnitude_def distanceTo_def)
  then show ?thesis
    by (simp add: circleCircleCollision_eq [OF two_circles_facts(1,2)] two_circles_facts
        two_circles_distance subtract_def add_def multiply_def)
qed

theorem positional_correction_dynamic_only_witness:
  "getInverseMass (two_circles ! 0) = Some 1 \<and> getInverseMass (two_circles ! Suc 0) = Some 1 \<and>
   body_type (two_circles ! 0) = ''dynamic'' \<and> body_type (two_circles ! Suc 0) = ''dynamic'' \<and>
   circleCircleCollision two_circles 0 (Suc 0) =
     Some \<lparr>bodyA = 0, bodyB = Suc 0, normal = Vector2 1 0, penetration = 5,
           contactPoint = Vector2 10 0\<rparr> \<and>
   (\<exists>h'. resolvePosition two_circles 0 (Suc 0) (Vector2 1 0) 5 = Some h' \<and>
      position (h' ! 0) = Vector2 (- 2) 0 \<and> position (h' ! Suc 0) = Vector2 17 0 \<and>
      bounds (h' ! 0) = \<lparr>left = - 12, top_b = - 10, right = 8, bottom = 10\<rparr> \<and>
      bounds (h' ! Suc 0) = \<lparr>left = 7, top_b = - 10, right = 27, bottom = 10\<rparr>)"
proof -
  have len: "length two_circles = 2" by (simp add: two_circles_def)
  from positional_correction_dynamic_only [of 0 "Suc 0" two_circles 1 1 "Vector2 1 0" 5]
  obtain h' where h': "resolvePosition two_circles 0 (Suc 0) (Vector2 1 0) 5 = Some h'"
    "h' ! 0 = updateBounds ((two_circles ! 0)\<lparr>position := subtract (position (two_circles ! 0))
                (multiply (multiply (Vector2 1 0) (5 / (1 + 1) * (8 / 10))) 1)\<rparr>)"
    "h' ! Suc 0 = updateBounds ((two_circles ! Suc 0)\<lparr>position := add (position (two_circles ! Suc 0))
                (multiply (multiply (Vector2 1 0) (5 / (1 + 1) * (8 / 10))) 1)\<rparr>)"
    using len two_circles_masses
    by auto
  have "position (h' ! 0) = Vector2 (- 2) 0" "position (h' ! Suc 0) = Vector2 17 0"
    "bounds (h' ! 0) = \<lparr>left = - 12, top_b = - 10, right = 8, bottom = 10\<rparr>"
    "bounds (h' ! Suc 0) = \<lparr>left = 7, top_b = - 10, right = 27, bottom = 10\<rparr>"
    unfolding h'(2,3)
    by (simp_all add: two_circles_facts updateBounds_def subtract_def add_def multiply_def)
  with h'(1) two_circles_masses two_circles_manifold show ?thesis by blast
qed

lemma kinematic_and_static_facts:
  "shape (kinematic_and_static ! 0) = Circle 10" "shape (kinematic_and_static ! Suc 0) = Circle 10"
  "position (kinematic_and_static ! 0) = Vector2 0 0"
  "position (kinematic_and_static ! Suc 0) = Vector2 15 0"
  "body_type (kinematic_and_static ! 0) = ''kinematic''"
  "body_type (kinematic_and_static ! Suc 0) = ''static''"
  "mass (kinematic_and_static ! 0) = 1"
  by (simp_all add: kinematic_and_static_def new_PhysicsBody_def no_options_def)

text \<open>
  A kinematic circle of mass 1 overlapping a static circle: the total inverse mass is 1,
  yet neither body is displaced and the penetration stays 5.
\<close>

theorem positional_correction_counterexample:
  "getInverseMass (kinematic_and_static ! 0) = Some 1 \<and>
   getInverseMass (kinematic_and_static ! Suc 0) = Some 0 \<and>
   circleCircleCollision kinematic_and_static 0 (Suc 0) =
     Some \<lparr>bodyA = 0, bodyB = Suc 0, normal = Vector2 1 0, penetration = 5,
           contactPoint = Vector2 10 0\<rparr> \<and>
   resolvePosition kinematic_and_static 0 (Suc 0) (Vector2 1 0) 5 = Some kinematic_and_static"
proof -
  have im: "getInverseMass (kinematic_and_static ! 0) = Some 1"
    "getInverseMass (kinematic_and_static ! Suc 0) = Some 0"
    by (simp_all add: getInverseMass_def kinematic_and_static_facts)
  have "normalize (Vector2 15 0) = Vector2 1 0"
    using normalize_unit(1) [of "Vector2 15 0"] two_circles_distance
    by (simp add: magnitude_def distanceTo_def)
  then have m: "circleCircleCollision kinematic_and_static 0 (Suc 0) =
     Some \<lparr>bodyA = 0, bodyB = Suc 0, normal = Vector2 1 0, penetration = 5,
           contactPoint = Vector2 10 0\<rparr>"
    by (simp add: circleCircleCollision_eq [OF kinematic_and_static_facts(1,2)]
        kinematic_and_static_facts two_circles_distance subtract_def add_def multiply_def)
  have "resolvePosition kinematic_and_static 0 (Suc 0) (Vector2 1 0) 5 = Some kinematic_and_static"
    by (simp add: resolvePosition_def im kinematic_and_static_facts)
  with im m show ?thesis by blast
qed

subsection \<open>The resolver: a rect manifold\<close>

lemma two_rects_facts:
  "position (two_rects ! 0) = Vector2 0 0" "position (two_rects ! Suc 0) = Vector2 22 0"
  "shape (two_rects ! 0) = Rect 32 32" "shape (two_rects ! Suc 0) = Rect 32 32"
  "bounds (two_rects ! 0) = \<lparr>left = - 16, top_b = - 16, right = 16, bottom = 16\<rparr>"
  "bounds (two_rects ! Suc 0) = \<lparr>left = 6, top_b = - 16, right = 38, bottom = 16\<rparr>"
  "body_type (two_rects ! 0) = ''dynamic''" "body_type (two_rects ! Suc 0) = ''dynamic''"
  "getInverseMass (two_rects ! 0) = Some 1" "getInverseMass (two_rects ! Suc 0) = Some 1"
  by (simp_all add: two_rects_def new_PhysicsBody_def no_options_def updateBounds_def
      getInverseMass_def)

text \<open>
  Two dynamic 32 by 32 rects at (0, 0) and (22, 0) overlap by 10. The rect test reports
  the normal (-1, 0), from B towards A, and one positional correction along it moves the
  bodies towards each other, to (4, 0) and (18, 0): the penetration grows from 10 to 18.
\<close>

lemma rect_correction_increases_penetration:
  "rectRectCollision two_rects 0 (Suc 0) =
     Some \<lparr>bodyA = 0, bodyB = Suc 0, normal = Vector2 (- 1) 0, penetration = 10,
           contactPoint = Vector2 11 0\<rparr> \<and>
   (\<exists>h'. resolvePosition two_rects 0 (Suc 0) (Vector2 (- 1) 0) 10 = Some h' \<and>
      position (h' ! 0) = Vector2 4 0 \<and> position (h' ! Suc 0) = Vector2 18 0 \<and>
      map_option penetration (rectRectCollision h' 0 (Suc 0)) = Some 18)"
proof -
  have m: "rectRectCollision two_rects 0 (Suc 0) =
     Some \<lparr>bodyA = 0, bodyB = Suc 0, normal = Vector2 (- 1) 0, penetration = 10,
           contactPoint = Vector2 11 0\<rparr>"
    by (simp add: rectRectCollision_def two_rects_facts Let_def)
  let ?A = "updateBounds ((two_rects ! 0)\<lparr>position := Vector2 4 0\<rparr>)"
  let ?B = "updateBounds ((two_rects ! Suc 0)\<lparr>position := Vector2 18 0\<rparr>)"
  let ?h = "two_rects[0 := ?A, Suc 0 := ?B]"
  have len: "length two_rects = 2" by (simp add: two_rects_def)
  have r: "resolvePosition two_rects 0 (Suc 0) (Vector2 (- 1) 0) 10 = Some ?h"
    using resolvePosition_eq [of 0 "Suc 0" two_rects 1 1 "Vector2 (- 1) 0" 10]
    by (simp add: two_rects_facts subtract_def add_def multiply_def)
  have a: "?h ! 0 = ?A" and b: "?h ! Suc 0 = ?B" using len by simp_all
  have ba: "bounds ?A = \<lparr>left = - 12, top_b = - 16, right = 20, bottom = 16\<rparr>"
    and bb: "bounds ?B = \<lparr>left = 2, top_b = - 16, right = 34, bottom = 16\<rparr>"
    by (simp_all add: updateBounds_def two_rects_facts)
  have p: "map_option penetration (rectRectCollision ?h 0 (Suc 0)) = Some 18"
    unfolding rectRectCollision_def a b ba bb by (simp add: Let_def)
  have "position (?h ! 0) = Vector2 4 0" "position (?h ! Suc 0) = Vector2 18 0"
    unfolding a b by simp_all
  with m r p show ?thesis by blast
qed

subsection \<open>The resolver: velocity resolution\<close>

lemma getInverseMass_velocity_update [simp]:
  "getInverseMass (B\<lparr>velocity := v\<rparr>) = getInverseMass B"
  by (simp add: getInverseMass_def)

lemma resolveVelocity_separating:
  "0 < dot (subtract (velocity (h ! b)) (velocity (h ! a))) nrm \<Longrightarrow>
   resolveVelocity h a b nrm = Some h"
  by (simp add: resolveVelocity_def Let_def)

lemma resolveVelocity_eq:
  assumes "a \<noteq> b" "getInverseMass (h ! a) = Some invA" "getInverseMass (h ! b) = Some invB"
    and "invA + invB \<noteq> 0"
    and "\<not> 0 < dot (subtract (velocity (h ! b)) (velocity (h ! a))) nrm"
    and j: "j = - (1 + min (restitution (material (h ! a))) (restitution (material (h ! b)))) *
              dot (subtract (velocity (h ! b)) (velocity (h ! a))) nrm"
  shows "resolveVelocity h a b nrm =
     applyFriction
       (h[a := (if body_type (h ! a) = ''dynamic''
                then (h ! a)\<lparr>velocity := subtract (velocity (h ! a))
                        (multiply (multiply nrm (j / (invA + invB))) invA)\<rparr>
                else h ! a),
          b := (if body_type (h ! b) = ''dynamic''
                then (h ! b)\<lparr>velocity := add (velocity (h ! b))
                        (multiply (multiply nrm (j / (invA + invB))) invB)\<rparr>
                else h ! b)])
       a b nrm j"
proof -
  have id: "\<And>X. (h[a := X])[b := h ! b] = h[a := X]"
    using assms(1) by (metis list_update_id nth_list_update_neq)
  show ?thesis
    using assms(1-5) unfolding j by (simp add: resolveVelocity_def Let_def id)
qed

lemma list_update_twice_pair:
  "a \<noteq> b \<Longrightarrow> h[a := X, b := Y, a := X', b := Y'] = h[a := X', b := Y']"
  by (simp add: list_update_swap [of a b])

lemma applyFriction_eq:
  fixes h :: "PhysicsBody list" and a b :: nat and nrm :: Vector2 and j invA invB :: real
  defines "rel \<equiv> subtract (velocity (h ! b)) (velocity (h ! a))"
  defines "t \<equiv> normalize (subtract rel (multiply nrm (dot rel nrm)))"
  defines "mu \<equiv> sqrt (friction (material (h ! a)) * friction (material (h ! b)))"
  defines "fr \<equiv> multiply t (if \<bar>- dot rel t\<bar> < j * mu then - dot rel t / (invA + invB)
                            else - j * mu / (invA + invB))"
  assumes "a \<noteq> b" "getInverseMass (h ! a) = Some invA" "getInverseMass (h ! b) = Some invB"
    and "invA + invB \<noteq> 0"
    and "0 \<le> friction (material (h ! a)) * friction (material (h ! b))"
  shows "applyFriction h a b nrm j =
     Some (h[a := (if body_type (h ! a) = ''dynamic''
                   then (h ! a)\<lparr>velocity := subtract (velocity (h ! a)) (multiply fr invA)\<rparr>
                   else h ! a),
             b := (if body_type (h ! b) = ''dynamic''
                   then (h ! b)\<lparr>velocity := add (velocity (h ! b)) (multiply fr invB)\<rparr>
                   else h ! b)])"
proof -
  have id: "\<And>X. (h[a := X])[b := h ! b] = h[a := X]"
    using assms(5) by (metis list_update_id nth_list_update_neq)
  show ?thesis
    using assms(5-) unfolding fr_def mu_def t_def rel_def
    by (simp add: applyFriction_def Let_def id)
qed

lemma applyFriction_negative_friction:
  assumes "getInverseMass (h ! a) = Some invA" "getInverseMass (h ! b) = Some invB"
    and "invA + invB \<noteq> 0"
    and "friction (material (h ! a)) * friction (material (h ! b)) < 0"
  shows "applyFriction h a b nrm j = None"
  using assms by (simp add: applyFriction_def Let_def js_sqrt_def)

lemma resolveVelocity_final:
  fixes h :: "PhysicsBody list" and a b :: nat and nrm :: Vector2 and invA invB :: real
  defines "vn \<equiv> dot (subtract (velocity (h ! b)) (velocity (h ! a))) nrm"
  defines "j \<equiv> - (1 + min (restitution (material (h ! a))) (restitution (material (h ! b)))) * vn"
  defines "impulse \<equiv> multiply nrm (j / (invA + invB))"
  defines "vA1 \<equiv> if body_type (h ! a) = ''dynamic''
                   then subtract (velocity (h ! a)) (multiply impulse invA) else velocity (h ! a)"
  defines "vB1 \<equiv> if body_type (h ! b) = ''dynamic''
                   then add (velocity (h ! b)) (multiply impulse invB) else velocity (h ! b)"
  defines "rel \<equiv> subtract vB1 vA1"
  defines "t \<equiv> normalize (subtract rel (multiply nrm (dot rel nrm)))"
  defines "mu \<equiv> sqrt (friction (material (h ! a)) * friction (material (h ! b)))"
  defines "fr \<equiv> multiply t (if \<bar>- dot rel t\<bar> < j * mu then - dot rel t / (invA + invB)
                            else - j * mu / (invA + invB))"
  defines "vA2 \<equiv> if body_type (h ! a) = ''dynamic'' then subtract vA1 (multiply fr invA) else vA1"
  defines "vB2 \<equiv> if body_type (h ! b) = ''dynamic'' then add vB1 (multiply fr invB) else vB1"
  assumes ab: "a \<noteq> b" and la: "a < length h" and lb: "b < length h"
    and ia: "getInverseMass (h ! a) = Some invA" and ib: "getInverseMass (h ! b) = Some invB"
    and tot: "invA + invB \<noteq> 0" and sep: "\<not> 0 < vn"
  shows "0 \<le> friction (material (h ! a)) * friction (material (h ! b)) \<Longrightarrow>
           resolveVelocity h a b nrm =
             Some (h[a := (h ! a)\<lparr>velocity := vA2\<rparr>, b := (h ! b)\<lparr>velocity := vB2\<rparr>])"
    and "friction (material (h ! a)) * friction (material (h ! b)) < 0 \<Longrightarrow>
           resolveVelocity h a b nrm = None"
    and "0 \<le> friction (material (h ! a)) * friction (material (h ! b)) \<Longrightarrow>
           \<exists>vA vB. resolveVelocity h a b nrm =
             Some (h[a := (h ! a)\<lparr>velocity := vA\<rparr>, b := (h ! b)\<lparr>velocity := vB\<rparr>]) \<and>
             (body_type (h ! a) \<noteq> ''dynamic'' \<longrightarrow> vA = velocity (h ! a)) \<and>
             (body_type (h ! b) \<noteq> ''dynamic'' \<longrightarrow> vB = velocity (h ! b))"
proof -
  have na: "body_type (h ! a) \<noteq> ''dynamic'' \<longrightarrow> vA2 = velocity (h ! a)"
    unfolding vA2_def vA1_def by simp
  have nb: "body_type (h ! b) \<noteq> ''dynamic'' \<longrightarrow> vB2 = velocity (h ! b)"
    unfolding vB2_def vB1_def by simp
  define A1 where "A1 = (if body_type (h ! a) = ''dynamic''
             then (h ! a)\<lparr>velocity := subtract (velocity (h ! a)) (multiply impulse invA)\<rparr>
             else h ! a)"
  define B1 where "B1 = (if body_type (h ! b) = ''dynamic''
             then (h ! b)\<lparr>velocity := add (velocity (h ! b)) (multiply impulse invB)\<rparr>
             else h ! b)"
  define h1 where "h1 = h[a := A1, b := B1]"
  have rv: "resolveVelocity h a b nrm = applyFriction h1 a b nrm j"
    unfolding h1_def A1_def B1_def impulse_def
    by (rule resolveVelocity_eq [OF ab ia ib tot sep [unfolded vn_def] j_def [unfolded vn_def, THEN meta_eq_to_obj_eq]])
  have a1: "h1 ! a = A1" using ab la by (simp add: h1_def)
  have b1: "h1 ! b = B1" using lb by (simp add: h1_def)
  have ia1: "getInverseMass (h1 ! a) = Some invA" unfolding a1 A1_def using ia by simp
  have ib1: "getInverseMass (h1 ! b) = Some invB" unfolding b1 B1_def using ib by simp
  have ma: "material (h1 ! a) = material (h ! a)" unfolding a1 A1_def by simp
  have mb: "material (h1 ! b) = material (h ! b)" unfolding b1 B1_def by simp
  have ta: "body_type (h1 ! a) = body_type (h ! a)" unfolding a1 A1_def by simp
  have tb: "body_type (h1 ! b) = body_type (h ! b)" unfolding b1 B1_def by simp
  have va: "velocity (h1 ! a) = vA1" unfolding a1 A1_def vA1_def by simp
  have vb: "velocity (h1 ! b) = vB1" unfolding b1 B1_def vB1_def by simp
  note A1_facts = ta [unfolded a1] va [unfolded a1]
  note B1_facts = tb [unfolded b1] vb [unfolded b1]
  have r1: "resolveVelocity h a b nrm =
             Some (h[a := (h ! a)\<lparr>velocity := vA2\<rparr>, b := (h ! b)\<lparr>velocity := vB2\<rparr>])"
    if f: "0 \<le> friction (material (h ! a)) * friction (material (h ! b))"
  proof -
    have f1: "0 \<le> friction (material (h1 ! a)) * friction (material (h1 ! b))"
      unfolding ma mb by (rule f)
    have A2: "(if body_type (h ! a) = ''dynamic''
               then A1\<lparr>velocity := subtract vA1 (multiply fr invA)\<rparr> else A1) =
              (h ! a)\<lparr>velocity := vA2\<rparr>"
      unfolding vA2_def vA1_def A1_def by simp
    have B2: "(if body_type (h ! b) = ''dynamic''
               then B1\<lparr>velocity := add vB1 (multiply fr invB)\<rparr> else B1) =
              (h ! b)\<lparr>velocity := vB2\<rparr>"
      unfolding vB2_def vB1_def B1_def by simp
    have "applyFriction h1 a b nrm j =
        Some (h1[a := (if body_type (h1 ! a) = ''dynamic''
                        then (h1 ! a)\<lparr>velocity := subtract (velocity (h1 ! a)) (multiply fr invA)\<rparr>
                        else h1 ! a),
                  b := (if body_type (h1 ! b) = ''dynamic''
                        then (h1 ! b)\<lparr>velocity := add (velocity (h1 ! b)) (multiply fr invB)\<rparr>
                        else h1 ! b)])"
      using applyFriction_eq [OF ab ia1 ib1 tot f1, of nrm j]
      unfolding fr_def t_def rel_def mu_def ma mb va vb .
    then have "applyFriction h1 a b nrm j =
        Some (h1[a := (if body_type (h ! a) = ''dynamic''
                        then A1\<lparr>velocity := subtract vA1 (multiply fr invA)\<rparr> else A1),
                  b := (if body_type (h ! b) = ''dynamic''
                        then B1\<lparr>velocity := add vB1 (multiply fr invB)\<rparr> else B1)])"
      unfolding a1 b1 A1_facts B1_facts .
    then show ?thesis
      unfolding rv A2 B2 h1_def list_update_twice_pair [OF ab] .
  qed
  show "0 \<le> friction (material (h ! a)) * friction (material (h ! b)) \<Longrightarrow>
           resolveVelocity h a b nrm =
             Some (h[a := (h ! a)\<lparr>velocity := vA2\<rparr>, b := (h ! b)\<lparr>velocity := vB2\<rparr>])"
    by (rule r1)
  show "0 \<le> friction (material (h ! a)) * friction (material (h ! b)) \<Longrightarrow>
           \<exists>vA vB. resolveVelocity h a b nrm =
             Some (h[a := (h ! a)\<lparr>velocity := vA\<rparr>, b := (h ! b)\<lparr>velocity := vB\<rparr>]) \<and>
             (body_type (h ! a) \<noteq> ''dynamic'' \<longrightarrow> vA = velocity (h ! a)) \<and>
             (body_type (h ! b) \<noteq> ''dynamic'' \<longrightarrow> vB = velocity (h ! b))"
    using r1 na nb by blast
  {
    assume f: "friction (material (h ! a)) * friction (material (h ! b)) < 0"
    have f1: "friction (material (h1 ! a)) * friction (material (h1 ! b)) < 0"
      unfolding ma mb by (rule f)
    show "resolveVelocity h a b nrm = None"
      unfolding rv by (rule applyFriction_negative_friction [OF ia1 ib1 tot f1])
  }
qed

lemma resolveVelocity_zero_total:
  assumes "getInverseMass (h ! a) = Some invA" "getInverseMass (h ! b) = Some invB"
    and "invA + invB = 0"
  shows "resolveVelocity h a b nrm = Some h"
  using assms by (simp add: resolveVelocity_def Let_def)

lemma resolveVelocity_frame:
  assumes ab: "a \<noteq> b" and la: "a < length h" and lb: "b < length h"
    and ia: "getInverseMass (h ! a) = Some invA" and ib: "getInverseMass (h ! b) = Some invB"
    and r: "resolveVelocity h a b nrm = Some h'"
  shows "length h' = length h" and "k \<noteq> a \<Longrightarrow> k \<noteq> b \<Longrightarrow> h' ! k = h ! k"
    and "body_type (h ! a) \<noteq> ''dynamic'' \<Longrightarrow> h' ! a = h ! a"
    and "body_type (h ! b) \<noteq> ''dynamic'' \<Longrightarrow> h' ! b = h ! b"
proof -
  have "\<exists>vA vB. h' = h[a := (h ! a)\<lparr>velocity := vA\<rparr>, b := (h ! b)\<lparr>velocity := vB\<rparr>] \<and>
          (body_type (h ! a) \<noteq> ''dynamic'' \<longrightarrow> vA = velocity (h ! a)) \<and>
          (body_type (h ! b) \<noteq> ''dynamic'' \<longrightarrow> vB = velocity (h ! b))"
  proof (cases "0 < dot (subtract (velocity (h ! b)) (velocity (h ! a))) nrm")
    case True
    then have "h' = h" using r by (simp add: resolveVelocity_separating)
    then have "h' = h[a := (h ! a)\<lparr>velocity := velocity (h ! a)\<rparr>,
                      b := (h ! b)\<lparr>velocity := velocity (h ! b)\<rparr>]" by simp
    then show ?thesis by blast
  next
    case sep: False
    show ?thesis
    proof (cases "invA + invB = 0")
      case True
      then have "h' = h" using r resolveVelocity_zero_total [OF ia ib] by simp
      then have "h' = h[a := (h ! a)\<lparr>velocity := velocity (h ! a)\<rparr>,
                        b := (h ! b)\<lparr>velocity := velocity (h ! b)\<rparr>]" by simp
      then show ?thesis by blast
    next
      case tot: False
      note fin = resolveVelocity_final [OF ab la lb ia ib tot sep]
      show ?thesis
      proof (cases "0 \<le> friction (material (h ! a)) * friction (material (h ! b))")
        case True
        from fin(3) [OF True] r show ?thesis by auto
      next
        case False
        then have "resolveVelocity h a b nrm = None" using fin(2) by simp
        with r show ?thesis by simp
      qed
    qed
  qed
  then obtain vA vB where h': "h' = h[a := (h ! a)\<lparr>velocity := vA\<rparr>, b := (h ! b)\<lparr>velocity := vB\<rparr>]"
    and na: "body_type (h ! a) \<noteq> ''dynamic'' \<Longrightarrow> vA = velocity (h ! a)"
    and nb: "body_type (h ! b) \<noteq> ''dynamic'' \<Longrightarrow> vB = velocity (h ! b)"
    by blast
  show "length h' = length h" unfolding h' by simp
  show "k \<noteq> a \<Longrightarrow> k \<noteq> b \<Longrightarrow> h' ! k = h ! k" unfolding h' by simp
  show "body_type (h ! a) \<noteq> ''dynamic'' \<Longrightarrow> h' ! a = h ! a"
    unfolding h' using ab la na by simp
  show "body_type (h ! b) \<noteq> ''dynamic'' \<Longrightarrow> h' ! b = h ! b"
    unfolding h' using lb nb by simp
qed

text \<open>
  C3 (as amended). For a manifold of two distinct bodies whose inverse masses are
  defined, velocity resolution projects the relative velocity (B minus A) on the normal.
  When the projection is positive nothing changes. Otherwise, when the total inverse mass
  is not zero and the product of the two friction coefficients is not negative, the
  velocities end as follows. The impulse is the normal times
  -(1 + min(restitution A, restitution B)) times the projection, divided by the total
  inverse mass; a dynamic A loses the impulse times its inverse mass and a dynamic B gains
  the impulse times its inverse mass. Friction then takes the relative velocity of these
  new velocities, the tangent \<open>normalize\<close> returns for it minus its part along the normal,
  and the friction impulse, minus the relative velocity along the tangent; the friction
  vector is the tangent times the friction impulse over the total inverse mass when the
  absolute friction impulse is below the impulse scalar times the square root of the
  friction product, and the tangent times minus that bound over the total inverse mass
  otherwise; a dynamic A loses the friction vector times its inverse mass and a dynamic B
  gains it. When the friction product is negative and a body is dynamic, the square root
  is not a number and no velocities result. Whenever the resolution yields velocities, a
  body whose type is not dynamic (static, kinematic) and every other body is as before.
\<close>

theorem velocity_resolution_final_velocities:
  "a \<noteq> b \<and> a < length h \<and> b < length h \<and>
   getInverseMass (h ! a) = Some invA \<and> getInverseMass (h ! b) = Some invB \<longrightarrow>
     (let vn = dot (subtract (velocity (h ! b)) (velocity (h ! a))) nrm;
          j = - (1 + min (restitution (material (h ! a))) (restitution (material (h ! b)))) * vn;
          impulse = multiply nrm (j / (invA + invB));
          vA1 = (if body_type (h ! a) = ''dynamic''
                 then subtract (velocity (h ! a)) (multiply impulse invA) else velocity (h ! a));
          vB1 = (if body_type (h ! b) = ''dynamic''
                 then add (velocity (h ! b)) (multiply impulse invB) else velocity (h ! b));
          rel = subtract vB1 vA1;
          tangent = normalize (subtract rel (multiply nrm (dot rel nrm)));
          mu = sqrt (friction (material (h ! a)) * friction (material (h ! b)));
          fr = multiply tangent (if \<bar>- dot rel tangent\<bar> < j * mu
                                 then - dot rel tangent / (invA + invB)
                                 else - j * mu / (invA + invB));
          vA2 = (if body_type (h ! a) = ''dynamic'' then subtract vA1 (multiply fr invA) else vA1);
          vB2 = (if body_type (h ! b) = ''dynamic'' then add vB1 (multiply fr invB) else vB1)
      in (0 < vn \<longrightarrow> resolveVelocity h a b nrm = Some h) \<and>
         (\<not> 0 < vn \<and> invA + invB \<noteq> 0 \<and>
          0 \<le> friction (material (h ! a)) * friction (material (h ! b)) \<longrightarrow>
            resolveVelocity h a b nrm =
              Some (h[a := (h ! a)\<lparr>velocity := vA2\<rparr>, b := (h ! b)\<lparr>velocity := vB2\<rparr>])) \<and>
         (\<not> 0 < vn \<and> invA + invB \<noteq> 0 \<and>
          friction (material (h ! a)) * friction (material (h ! b)) < 0 \<and>
          (body_type (h ! a) = ''dynamic'' \<or> body_type (h ! b) = ''dynamic'') \<longrightarrow>
            resolveVelocity h a b nrm = None)) \<and>
     (\<forall>h'. resolveVelocity h a b nrm = Some h' \<longrightarrow>
        length h' = length h \<and>
        (\<forall>k. k \<noteq> a \<and> k \<noteq> b \<longrightarrow> h' ! k = h ! k) \<and>
        (body_type (h ! a) \<noteq> ''dynamic'' \<longrightarrow> h' ! a = h ! a) \<and>
        (body_type (h ! b) \<noteq> ''dynamic'' \<longrightarrow> h' ! b = h ! b))"
proof (intro impI, elim conjE)
  assume ab: "a \<noteq> b" and la: "a < length h" and lb: "b < length h"
    and ia: "getInverseMass (h ! a) = Some invA" and ib: "getInverseMass (h ! b) = Some invB"
  note fin = resolveVelocity_final [OF ab la lb ia ib]
  note frame = resolveVelocity_frame [OF ab la lb ia ib]
  have vals: "let vn = dot (subtract (velocity (h ! b)) (velocity (h ! a))) nrm;
          j = - (1 + min (restitution (material (h ! a))) (restitution (material (h ! b)))) * vn;
          impulse = multiply nrm (j / (invA + invB));
          vA1 = (if body_type (h ! a) = ''dynamic''
                 then subtract (velocity (h ! a)) (multiply impulse invA) else velocity (h ! a));
          vB1 = (if body_type (h ! b) = ''dynamic''
                 then add (velocity (h ! b)) (multiply impulse invB) else velocity (h ! b));
          rel = subtract vB1 vA1;
          tangent = normalize (subtract rel (multiply nrm (dot rel nrm)));
          mu = sqrt (friction (material (h ! a)) * friction (material (h ! b)));
          fr = multiply tangent (if \<bar>- dot rel tangent\<bar> < j * mu
                                 then - dot rel tangent / (invA + invB)
                                 else - j * mu / (invA + invB));
          vA2 = (if body_type (h ! a) = ''dynamic'' then subtract vA1 (multiply fr invA) else vA1);
          vB2 = (if body_type (h ! b) = ''dynamic'' then add vB1 (multiply fr invB) else vB1)
      in (0 < vn \<longrightarrow> resolveVelocity h a b nrm = Some h) \<and>
         (\<not> 0 < vn \<and> invA + invB \<noteq> 0 \<and>
          0 \<le> friction (material (h ! a)) * friction (material (h ! b)) \<longrightarrow>
            resolveVelocity h a b nrm =
              Some (h[a := (h ! a)\<lparr>velocity := vA2\<rparr>, b := (h ! b)\<lparr>velocity := vB2\<rparr>])) \<and>
         (\<not> 0 < vn \<and> invA + invB \<noteq> 0 \<and>
          friction (material (h ! a)) * friction (material (h ! b)) < 0 \<and>
          (body_type (h ! a) = ''dynamic'' \<or> body_type (h ! b) = ''dynamic'') \<longrightarrow>
            resolveVelocity h a b nrm = None)"
    unfolding Let_def
    apply (intro conjI impI)
    subgoal by (rule resolveVelocity_separating)
    subgoal by (elim conjE, rule fin(1))
    subgoal by (elim conjE, rule fin(2))
    done
  have frm: "\<forall>h'. resolveVelocity h a b nrm = Some h' \<longrightarrow>
        length h' = length h \<and>
        (\<forall>k. k \<noteq> a \<and> k \<noteq> b \<longrightarrow> h' ! k = h ! k) \<and>
        (body_type (h ! a) \<noteq> ''dynamic'' \<longrightarrow> h' ! a = h ! a) \<and>
        (body_type (h ! b) \<noteq> ''dynamic'' \<longrightarrow> h' ! b = h ! b)"
    using frame by blast
  from vals frm show "(let vn = dot (subtract (velocity (h ! b)) (velocity (h ! a))) nrm;
          j = - (1 + min (restitution (material (h ! a))) (restitution (material (h ! b)))) * vn;
          impulse = multiply nrm (j / (invA + invB));
          vA1 = (if body_type (h ! a) = ''dynamic''
                 then subtract (velocity (h ! a)) (multiply impulse invA) else velocity (h ! a));
          vB1 = (if body_type (h ! b) = ''dynamic''
                 then add (velocity (h ! b)) (multiply impulse invB) else velocity (h ! b));
          rel = subtract vB1 vA1;
          tangent = normalize (subtract rel (multiply nrm (dot rel nrm)));
          mu = sqrt (friction (material (h ! a)) * friction (material (h ! b)));
          fr = multiply tangent (if \<bar>- dot rel tangent\<bar> < j * mu
                                 then - dot rel tangent / (invA + invB)
                                 else - j * mu / (invA + invB));
          vA2 = (if body_type (h ! a) = ''dynamic'' then subtract vA1 (multiply fr invA) else vA1);
          vB2 = (if body_type (h ! b) = ''dynamic'' then add vB1 (multiply fr invB) else vB1)
      in (0 < vn \<longrightarrow> resolveVelocity h a b nrm = Some h) \<and>
         (\<not> 0 < vn \<and> invA + invB \<noteq> 0 \<and>
          0 \<le> friction (material (h ! a)) * friction (material (h ! b)) \<longrightarrow>
            resolveVelocity h a b nrm =
              Some (h[a := (h ! a)\<lparr>velocity := vA2\<rparr>, b := (h ! b)\<lparr>velocity := vB2\<rparr>])) \<and>
         (\<not> 0 < vn \<and> invA + invB \<noteq> 0 \<and>
          friction (material (h ! a)) * friction (material (h ! b)) < 0 \<and>
          (body_type (h ! a) = ''dynamic'' \<or> body_type (h ! b) = ''dynamic'') \<longrightarrow>
            resolveVelocity h a b nrm = None)) \<and>
     (\<forall>h'. resolveVelocity h a b nrm = Some h' \<longrightarrow>
        length h' = length h \<and>
        (\<forall>k. k \<noteq> a \<and> k \<noteq> b \<longrightarrow> h' ! k = h ! k) \<and>
        (body_type (h ! a) \<noteq> ''dynamic'' \<longrightarrow> h' ! a = h ! a) \<and>
        (body_type (h ! b) \<noteq> ''dynamic'' \<longrightarrow> h' ! b = h ! b))"
    by (rule conjI)
qed

lemma head_on_facts:
  "length head_on = 2"
  "velocity (head_on ! 0) = Vector2 10 0" "velocity (head_on ! Suc 0) = Vector2 (- 10) 0"
  "body_type (head_on ! 0) = ''dynamic''" "body_type (head_on ! Suc 0) = ''dynamic''"
  "mass (head_on ! 0) = 1" "mass (head_on ! Suc 0) = 1"
  "material (head_on ! 0) = \<lparr>friction = 3 / 10, restitution = 2 / 10, density = 1\<rparr>"
  "material (head_on ! Suc 0) = \<lparr>friction = 3 / 10, restitution = 2 / 10, density = 1\<rparr>"
  by (simp_all add: head_on_def new_PhysicsBody_def no_options_def)

lemma kinematic_head_on_facts:
  "length kinematic_head_on = 2"
  "velocity (kinematic_head_on ! 0) = Vector2 10 0"
  "velocity (kinematic_head_on ! Suc 0) = Vector2 (- 10) 0"
  "body_type (kinematic_head_on ! 0) = ''kinematic''"
  "body_type (kinematic_head_on ! Suc 0) = ''dynamic''"
  "mass (kinematic_head_on ! 0) = 1" "mass (kinematic_head_on ! Suc 0) = 1"
  "material (kinematic_head_on ! 0) = \<lparr>friction = 3 / 10, restitution = 2 / 10, density = 1\<rparr>"
  "material (kinematic_head_on ! Suc 0) = \<lparr>friction = 3 / 10, restitution = 2 / 10, density = 1\<rparr>"
  by (simp_all add: kinematic_head_on_def new_PhysicsBody_def no_options_def)

lemma normalize_zero [simp]: "normalize (Vector2 0 0) = Vector2 0 0"
  by (simp add: normalize_def magnitude_def)

lemma negative_friction_head_on_facts:
  "length negative_friction_head_on = 2"
  "velocity (negative_friction_head_on ! 0) = Vector2 10 0"
  "velocity (negative_friction_head_on ! Suc 0) = Vector2 (- 10) 0"
  "body_type (negative_friction_head_on ! 0) = ''dynamic''"
  "body_type (negative_friction_head_on ! Suc 0) = ''dynamic''"
  "mass (negative_friction_head_on ! 0) = 1" "mass (negative_friction_head_on ! Suc 0) = 1"
  "material (negative_friction_head_on ! 0) = \<lparr>friction = - 1, restitution = 0, density = 1\<rparr>"
  "material (negative_friction_head_on ! Suc 0) = \<lparr>friction = 1, restitution = 0, density = 1\<rparr>"
  by (simp_all add: negative_friction_head_on_def new_PhysicsBody_def no_options_def)

theorem velocity_resolution_final_velocities_witness:
  "getInverseMass (head_on ! 0) = Some 1 \<and> getInverseMass (head_on ! Suc 0) = Some 1 \<and>
   dot (subtract (velocity (head_on ! Suc 0)) (velocity (head_on ! 0))) (Vector2 1 0) = - 20 \<and>
   resolveVelocity head_on 0 (Suc 0) (Vector2 1 0) =
     Some (head_on[0 := (head_on ! 0)\<lparr>velocity := Vector2 (- 2) 0\<rparr>,
                   Suc 0 := (head_on ! Suc 0)\<lparr>velocity := Vector2 2 0\<rparr>]) \<and>
   getInverseMass (negative_friction_head_on ! 0) = Some 1 \<and>
   getInverseMass (negative_friction_head_on ! Suc 0) = Some 1 \<and>
   friction (material (negative_friction_head_on ! 0)) *
     friction (material (negative_friction_head_on ! Suc 0)) = - 1 \<and>
   resolveVelocity negative_friction_head_on 0 (Suc 0) (Vector2 1 0) = None"
proof -
  have im: "getInverseMass (head_on ! 0) = Some 1" "getInverseMass (head_on ! Suc 0) = Some 1"
    by (simp_all add: getInverseMass_def head_on_facts)
  have vn: "dot (subtract (velocity (head_on ! Suc 0)) (velocity (head_on ! 0))) (Vector2 1 0) = - 20"
    by (simp add: head_on_facts dot_def subtract_def)
  have hyp: "0 \<noteq> Suc 0 \<and> 0 < length head_on \<and> Suc 0 < length head_on \<and>
      getInverseMass (head_on ! 0) = Some 1 \<and> getInverseMass (head_on ! Suc 0) = Some 1"
    by (simp add: im head_on_facts)
  have pre: "\<not> 0 < dot (subtract (velocity (head_on ! Suc 0)) (velocity (head_on ! 0))) (Vector2 1 0) \<and>
      (1 :: real) + 1 \<noteq> 0 \<and>
      0 \<le> friction (material (head_on ! 0)) * friction (material (head_on ! Suc 0))"
    by (simp add: head_on_facts dot_def subtract_def)
  note fin = velocity_resolution_final_velocities [of 0 "Suc 0" head_on 1 1 "Vector2 1 0",
      THEN mp, OF hyp, THEN conjunct1, unfolded Let_def, THEN conjunct2, THEN conjunct1,
      THEN mp, OF pre]
  have r: "resolveVelocity head_on 0 (Suc 0) (Vector2 1 0) =
     Some (head_on[0 := (head_on ! 0)\<lparr>velocity := Vector2 (- 2) 0\<rparr>,
                   Suc 0 := (head_on ! Suc 0)\<lparr>velocity := Vector2 2 0\<rparr>])"
    unfolding fin
    by (simp add: head_on_facts dot_def subtract_def add_def multiply_def)
  have im': "getInverseMass (negative_friction_head_on ! 0) = Some 1"
    "getInverseMass (negative_friction_head_on ! Suc 0) = Some 1"
    by (simp_all add: getInverseMass_def negative_friction_head_on_facts)
  have f: "friction (material (negative_friction_head_on ! 0)) *
     friction (material (negative_friction_head_on ! Suc 0)) = - 1"
    by (simp add: negative_friction_head_on_facts)
  have hyp': "0 \<noteq> Suc 0 \<and> 0 < length negative_friction_head_on \<and>
      Suc 0 < length negative_friction_head_on \<and>
      getInverseMass (negative_friction_head_on ! 0) = Some 1 \<and>
      getInverseMass (negative_friction_head_on ! Suc 0) = Some 1"
    by (simp add: im' negative_friction_head_on_facts)
  have pre': "\<not> 0 < dot (subtract (velocity (negative_friction_head_on ! Suc 0))
                           (velocity (negative_friction_head_on ! 0))) (Vector2 1 0) \<and>
      (1 :: real) + 1 \<noteq> 0 \<and>
      friction (material (negative_friction_head_on ! 0)) *
        friction (material (negative_friction_head_on ! Suc 0)) < 0 \<and>
      (body_type (negative_friction_head_on ! 0) = ''dynamic'' \<or>
       body_type (negative_friction_head_on ! Suc 0) = ''dynamic'')"
    by (simp add: negative_friction_head_on_facts dot_def subtract_def)
  note n = velocity_resolution_final_velocities
      [of 0 "Suc 0" negative_friction_head_on 1 1 "Vector2 1 0",
       THEN mp, OF hyp', THEN conjunct1, unfolded Let_def, THEN conjunct2, THEN conjunct2,
       THEN mp, OF pre']
  from im vn r im' f n show ?thesis by blast
qed

text \<open>
  A kinematic body of mass 1 meets a dynamic body of mass 1 head on: the kinematic body,
  whose inverse mass is 1, keeps its velocity (10, 0); only the dynamic body receives the
  impulse.
\<close>

theorem velocity_resolution_counterexample:
  "getInverseMass (kinematic_head_on ! 0) = Some 1 \<and>
   getInverseMass (kinematic_head_on ! Suc 0) = Some 1 \<and>
   dot (subtract (velocity (kinematic_head_on ! Suc 0)) (velocity (kinematic_head_on ! 0)))
       (Vector2 1 0) = - 20 \<and>
   resolveVelocity kinematic_head_on 0 (Suc 0) (Vector2 1 0) =
     Some (kinematic_head_on[Suc 0 := (kinematic_head_on ! Suc 0)\<lparr>velocity := Vector2 2 0\<rparr>]) \<and>
   velocity (kinematic_head_on ! 0) = Vector2 10 0"
proof -
  have im: "getInverseMass (kinematic_head_on ! 0) = Some 1"
    "getInverseMass (kinematic_head_on ! Suc 0) = Some 1"
    by (simp_all add: getInverseMass_def kinematic_head_on_facts)
  have vn: "dot (subtract (velocity (kinematic_head_on ! Suc 0)) (velocity (kinematic_head_on ! 0)))
       (Vector2 1 0) = - 20"
    by (simp add: kinematic_head_on_facts dot_def subtract_def)
  let ?h2 = "kinematic_head_on[Suc 0 := (kinematic_head_on ! Suc 0)\<lparr>velocity := Vector2 2 0\<rparr>]"
  have h2: "?h2 ! 0 = kinematic_head_on ! 0"
    "?h2 ! Suc 0 = (kinematic_head_on ! Suc 0)\<lparr>velocity := Vector2 2 0\<rparr>"
    by (simp_all add: kinematic_head_on_facts)
  have rv: "resolveVelocity kinematic_head_on 0 (Suc 0) (Vector2 1 0) =
      applyFriction ?h2 0 (Suc 0) (Vector2 1 0) 24"
    using resolveVelocity_eq [of 0 "Suc 0" kinematic_head_on 1 1 "Vector2 1 0", OF _ im _ _ refl]
    unfolding vn
    by (simp add: kinematic_head_on_facts add_def multiply_def)
  have "applyFriction ?h2 0 (Suc 0) (Vector2 1 0) 24 = Some ?h2"
    unfolding applyFriction_def h2
    by (simp add: im kinematic_head_on_facts Let_def subtract_def add_def multiply_def dot_def
        list_update_same_conv)
  with rv im vn show ?thesis
    by (simp add: kinematic_head_on_facts)
qed

subsection \<open>Ray casting\<close>

lemma nonneg_num_cases: "nonneg_num d \<Longrightarrow> d = Infinity \<or> (\<exists>r. 0 \<le> r \<and> d = Number r)"
  by (cases d) (auto simp: nonneg_num_def js_le_def)

lemma compare_nonneg:
  assumes "nonneg_num a" "nonneg_num b"
  shows "js_lt (Number 0) (js_sub a b) \<longleftrightarrow> js_lt b a"
  using nonneg_num_cases [OF assms(1)] nonneg_num_cases [OF assms(2)]
  by (auto simp: js_sub_def)

lemma js_le_total:
  assumes "nonneg_num a" "nonneg_num b"
  shows "\<not> js_lt b a \<Longrightarrow> js_le a b" "js_lt b a \<Longrightarrow> js_le b a"
  using nonneg_num_cases [OF assms(1)] nonneg_num_cases [OF assms(2)]
  by (auto simp: js_le_def)

lemma js_le_trans:
  assumes "js_le a b" "js_le b c"
  shows "js_le a c"
  using assms by (cases a; cases b; cases c) (auto simp: js_le_def)

lemma set_insert_hit [simp]: "set (insert_hit a bs) = insert a (set bs)"
  by (induction bs) auto

lemma mset_insert_hit [simp]: "mset (insert_hit a bs) = add_mset a (mset bs)"
  by (induction bs) auto

lemma mset_sort_hits [simp]: "mset (sort_hits hits) = mset hits"
  by (induction hits) (simp_all add: sort_hits_def)

lemma set_sort_hits [simp]: "set (sort_hits hits) = set hits"
  by (metis mset_sort_hits set_mset_mset)

lemma sorted_insert_hit:
  assumes "sorted_wrt (\<lambda>p q. js_le (hit_distance p) (hit_distance q)) bs"
    and "nonneg_num (hit_distance a)" "\<forall>b \<in> set bs. nonneg_num (hit_distance b)"
  shows "sorted_wrt (\<lambda>p q. js_le (hit_distance p) (hit_distance q)) (insert_hit a bs)"
  using assms
proof (induction bs)
  case Nil
  then show ?case by simp
next
  case (Cons b bs)
  have nb: "nonneg_num (hit_distance b)" using Cons.prems(3) by simp
  show ?case
  proof (cases "js_lt (Number 0) (js_sub (hit_distance a) (hit_distance b))")
    case True
    then have "js_lt (hit_distance b) (hit_distance a)"
      using compare_nonneg [OF Cons.prems(2) nb] by simp
    then have ba: "js_le (hit_distance b) (hit_distance a)"
      using js_le_total(2) [OF Cons.prems(2) nb] by simp
    have "sorted_wrt (\<lambda>p q. js_le (hit_distance p) (hit_distance q)) (insert_hit a bs)"
      using Cons by simp
    with True ba Cons.prems(1) show ?thesis by auto
  next
    case False
    then have "\<not> js_lt (hit_distance b) (hit_distance a)"
      using compare_nonneg [OF Cons.prems(2) nb] by simp
    then have ab: "js_le (hit_distance a) (hit_distance b)"
      using js_le_total(1) [OF Cons.prems(2) nb] by simp
    have "\<forall>c \<in> set bs. js_le (hit_distance a) (hit_distance c)"
      using ab Cons.prems(1) js_le_trans by auto
    with False ab Cons.prems(1) show ?thesis by auto
  qed
qed

lemma sorted_sort_hits:
  assumes "\<forall>b \<in> set hits. nonneg_num (hit_distance b)"
  shows "sorted_wrt (\<lambda>p q. js_le (hit_distance p) (hit_distance q)) (sort_hits hits)"
  using assms
proof (induction hits)
  case Nil
  then show ?case by (simp add: sort_hits_def)
next
  case (Cons a hits)
  have "sort_hits (a # hits) = insert_hit a (sort_hits hits)"
    by (simp add: sort_hits_def)
  moreover have "sorted_wrt (\<lambda>p q. js_le (hit_distance p) (hit_distance q)) (sort_hits hits)"
    using Cons by simp
  ultimately show ?case
    using sorted_insert_hit Cons.prems by simp
qed

lemma raycastBody_Some_iff:
  "raycastBody origin direction maxDistance h r \<noteq> None \<longleftrightarrow>
     is_rect (shape (h ! r)) \<and> ray_hits origin direction maxDistance (bounds (h ! r))"
  by (simp add: raycastBody_def ray_hits_def entry_time_def exit_time_def Let_def)

lemma raycastBody_SomeD:
  assumes "raycastBody origin direction maxDistance h r = Some hit"
  shows "hit_body hit = r" "hit_distance hit = entry_time origin direction (bounds (h ! r))"
    and "is_rect (shape (h ! r))" "ray_hits origin direction maxDistance (bounds (h ! r))"
    and "nonneg_num (hit_distance hit)"
  using assms
  by (auto simp: raycastBody_def ray_hits_def entry_time_def exit_time_def Let_def nonneg_num_def
      split: if_splits)

lemma collect_hits_bodies:
  "map hit_body (collect_hits origin direction maxDistance layerMask h rs) =
   filter (\<lambda>r. eligible h layerMask r \<and> ray_hits origin direction maxDistance (bounds (h ! r))) rs"
proof (induction rs)
  case Nil
  then show ?case by simp
next
  case (Cons r rs)
  show ?case
  proof (cases "raycastBody origin direction maxDistance h r")
    case None
    then have "\<not> (is_rect (shape (h ! r)) \<and> ray_hits origin direction maxDistance (bounds (h ! r)))"
      using raycastBody_Some_iff [of origin direction maxDistance h r] by simp
    with None Cons show ?thesis by (auto simp: eligible_def)
  next
    case (Some hit)
    with Cons raycastBody_SomeD [OF Some] show ?thesis by (auto simp: eligible_def)
  qed
qed

lemma collect_hits_each:
  assumes "hit \<in> set (collect_hits origin direction maxDistance layerMask h rs)"
  shows "hit_body hit \<in> set rs \<and> eligible h layerMask (hit_body hit) \<and>
         raycastBody origin direction maxDistance h (hit_body hit) = Some hit"
  using assms
proof (induction rs)
  case Nil
  then show ?case by simp
next
  case (Cons r rs)
  then show ?case
    using raycastBody_SomeD(1,3) [of origin direction maxDistance h r]
    by (auto simp: eligible_def split: if_splits option.splits)
qed

lemma count_hits_of_body:
  "length (filter (\<lambda>hit. hit_body hit = r) hits) = count (mset (map hit_body hits)) r"
  by (induction hits) auto

lemma count_filter_distinct:
  assumes "distinct rs" "r \<in> set rs"
  shows "count (mset (filter P rs)) r = (if P r then 1 else 0)"
  using assms by (induction rs) auto

lemma raycast_result:
  "raycast e origin direction maxDistance layerMask =
     sort_hits (collect_hits origin direction maxDistance layerMask (heap e) (map snd (bodies e)))"
  by (simp add: raycast_def)

lemma ray_engine_facts:
  "bodies ray_engine = [(''a'', 0)]"
  "shape (heap ray_engine ! 0) = Rect 10 10"
  "bounds (heap ray_engine ! 0) = \<lparr>left = 100, top_b = - 5, right = 110, bottom = 5\<rparr>"
  "enabled (heap ray_engine ! 0)"
  "collisionLayer (heap ray_engine ! 0) = 1"
  by (simp_all add: ray_engine_def new_PhysicsEngine_def new_PhysicsBody_def no_options_def
      updateBounds_def)

lemma normalize_unit_x: "normalize (Vector2 1 0) = Vector2 1 0"
  by (simp add: normalize_def magnitude_def divide_def)

lemma ray_engine_raycast:
  "raycast ray_engine (Vector2 0 0) (Vector2 1 0) (Number 1000) 4294967295 =
     [\<lparr>hit_body = 0, hit_point = \<lparr>jx = Number 100, jy = Number 0\<rparr>, hit_distance = Number 100,
       hit_normal = Vector2 (- 1) 0\<rparr>]"
  by (simp add: raycast_def ray_engine_facts raycastBody_def normalize_unit_x js_divide_def
      js_min_def js_max_def js_le_def calculateHitNormal_def js_sub_def js_and_def sort_hits_def
      Let_def)

text \<open>
  C8. The hits \<open>raycast\<close> returns are in ascending order of distance. Every hit belongs to
  a registered body that is enabled, rect-shaped and whose collision layer meets the layer
  mask. Every entry of the \<open>bodies\<close> map whose body is enabled, rect-shaped and in the
  mask yields exactly one hit when the entry time is at most the exit time, at least 0 and
  at most \<open>maxDistance\<close>, and none otherwise (so one hit per such body, no body being
  registered twice); the distance of the hit is the entry time. \<open>raycastBody\<close> returns a
  hit exactly for a rect body under that condition. A ray from (0, 0) in direction (1, 0)
  with \<open>maxDistance\<close> 1000 meets a rect spanning x from 100 to 110 and y from -5 to 5 in
  exactly one hit, at distance 100 with normal (-1, 0).
\<close>

theorem raycast_slab_sorted:
  "sorted_wrt (\<lambda>p q. js_le (hit_distance p) (hit_distance q))
     (raycast e origin direction maxDistance layerMask) \<and>
   (\<forall>hit \<in> set (raycast e origin direction maxDistance layerMask).
      hit_body hit \<in> snd ` set (bodies e) \<and>
      enabled (heap e ! hit_body hit) \<and>
      is_rect (shape (heap e ! hit_body hit)) \<and>
      js_and (collisionLayer (heap e ! hit_body hit)) layerMask \<noteq> 0 \<and>
      ray_hits origin direction maxDistance (bounds (heap e ! hit_body hit)) \<and>
      hit_distance hit = entry_time origin direction (bounds (heap e ! hit_body hit))) \<and>
   mset (map hit_body (raycast e origin direction maxDistance layerMask)) =
     mset (filter (\<lambda>r. eligible (heap e) layerMask r \<and>
                        ray_hits origin direction maxDistance (bounds (heap e ! r)))
            (map snd (bodies e))) \<and>
   (distinct (map snd (bodies e)) \<longrightarrow>
      (\<forall>r \<in> snd ` set (bodies e). eligible (heap e) layerMask r \<longrightarrow>
         length (filter (\<lambda>hit. hit_body hit = r)
                   (raycast e origin direction maxDistance layerMask)) =
           (if ray_hits origin direction maxDistance (bounds (heap e ! r)) then 1 else 0))) \<and>
   (raycastBody origin direction maxDistance h r \<noteq> None \<longleftrightarrow>
      is_rect (shape (h ! r)) \<and> ray_hits origin direction maxDistance (bounds (h ! r))) \<and>
   raycast ray_engine (Vector2 0 0) (Vector2 1 0) (Number 1000) 4294967295 =
     [\<lparr>hit_body = 0, hit_point = \<lparr>jx = Number 100, jy = Number 0\<rparr>, hit_distance = Number 100,
       hit_normal = Vector2 (- 1) 0\<rparr>]"
proof -
  let ?rs = "map snd (bodies e)"
  let ?c = "collect_hits origin direction maxDistance layerMask (heap e) ?rs"
  let ?P = "\<lambda>r. eligible (heap e) layerMask r \<and>
                 ray_hits origin direction maxDistance (bounds (heap e ! r))"
  have each: "hit_body hit \<in> set ?rs \<and> eligible (heap e) layerMask (hit_body hit) \<and>
      raycastBody origin direction maxDistance (heap e) (hit_body hit) = Some hit"
    if "hit \<in> set ?c" for hit
    using that by (rule collect_hits_each)
  have nn: "\<forall>hit \<in> set ?c. nonneg_num (hit_distance hit)"
    using each raycastBody_SomeD(5) by blast
  have 1: "sorted_wrt (\<lambda>p q. js_le (hit_distance p) (hit_distance q))
     (raycast e origin direction maxDistance layerMask)"
    unfolding raycast_result using nn by (rule sorted_sort_hits)
  have 2: "\<forall>hit \<in> set (raycast e origin direction maxDistance layerMask).
      hit_body hit \<in> snd ` set (bodies e) \<and>
      enabled (heap e ! hit_body hit) \<and>
      is_rect (shape (heap e ! hit_body hit)) \<and>
      js_and (collisionLayer (heap e ! hit_body hit)) layerMask \<noteq> 0 \<and>
      ray_hits origin direction maxDistance (bounds (heap e ! hit_body hit)) \<and>
      hit_distance hit = entry_time origin direction (bounds (heap e ! hit_body hit))"
  proof
    fix hit assume "hit \<in> set (raycast e origin direction maxDistance layerMask)"
    then have "hit \<in> set ?c" by (simp add: raycast_result)
    from each [OF this] raycastBody_SomeD(2,4) [of origin direction maxDistance "heap e" "hit_body hit" hit]
    show "hit_body hit \<in> snd ` set (bodies e) \<and>
      enabled (heap e ! hit_body hit) \<and>
      is_rect (shape (heap e ! hit_body hit)) \<and>
      js_and (collisionLayer (heap e ! hit_body hit)) layerMask \<noteq> 0 \<and>
      ray_hits origin direction maxDistance (bounds (heap e ! hit_body hit)) \<and>
      hit_distance hit = entry_time origin direction (bounds (heap e ! hit_body hit))"
      by (simp add: eligible_def)
  qed
  have 3: "mset (map hit_body (raycast e origin direction maxDistance layerMask)) =
     mset (filter ?P ?rs)"
    unfolding raycast_result
    by (simp add: collect_hits_bodies [symmetric] del: mset_map mset_filter)
       (metis mset_map mset_sort_hits)
  have 4: "distinct ?rs \<longrightarrow>
      (\<forall>r \<in> snd ` set (bodies e). eligible (heap e) layerMask r \<longrightarrow>
         length (filter (\<lambda>hit. hit_body hit = r)
                   (raycast e origin direction maxDistance layerMask)) =
           (if ray_hits origin direction maxDistance (bounds (heap e ! r)) then 1 else 0))"
  proof (intro impI ballI)
    fix r assume d: "distinct ?rs" and r: "r \<in> snd ` set (bodies e)"
      and el: "eligible (heap e) layerMask r"
    have "length (filter (\<lambda>hit. hit_body hit = r)
                   (raycast e origin direction maxDistance layerMask)) =
          count (mset (filter ?P ?rs)) r"
      unfolding count_hits_of_body 3 ..
    also have "\<dots> = (if ?P r then 1 else 0)"
      using d r by (intro count_filter_distinct) simp_all
    finally show "length (filter (\<lambda>hit. hit_body hit = r)
                   (raycast e origin direction maxDistance layerMask)) =
           (if ray_hits origin direction maxDistance (bounds (heap e ! r)) then 1 else 0)"
      using el by simp
  qed
  from 1 2 3 4 raycastBody_Some_iff [of origin direction maxDistance h r] ray_engine_raycast
  show ?thesis by blast
qed

theorem raycast_slab_sorted_witness:
  "distinct (map snd (bodies ray_engine)) \<and> 0 \<in> snd ` set (bodies ray_engine) \<and>
   eligible (heap ray_engine) 4294967295 0 \<and>
   ray_hits (Vector2 0 0) (Vector2 1 0) (Number 1000) (bounds (heap ray_engine ! 0)) \<and>
   length (filter (\<lambda>hit. hit_body hit = 0)
             (raycast ray_engine (Vector2 0 0) (Vector2 1 0) (Number 1000) 4294967295)) = 1"
proof -
  have d: "distinct (map snd (bodies ray_engine))" "0 \<in> snd ` set (bodies ray_engine)"
    by (simp_all add: ray_engine_facts)
  have el: "eligible (heap ray_engine) 4294967295 0"
    by (simp add: eligible_def ray_engine_facts js_and_def)
  have rh: "ray_hits (Vector2 0 0) (Vector2 1 0) (Number 1000) (bounds (heap ray_engine ! 0))"
    by (simp add: ray_hits_def entry_time_def exit_time_def ray_engine_facts normalize_unit_x
        js_divide_def js_min_def js_max_def js_le_def)
  from raycast_slab_sorted [of ray_engine "Vector2 0 0" "Vector2 1 0" "Number 1000" 4294967295]
    d el rh
  have "length (filter (\<lambda>hit. hit_body hit = 0)
             (raycast ray_engine (Vector2 0 0) (Vector2 1 0) (Number 1000) 4294967295)) = 1"
    by auto
  with d el rh show ?thesis by blast
qed

subsection \<open>The update and the spatial hash\<close>

lemma updateBounds_fresh: "bounds b = bounds (updateBounds b) \<Longrightarrow> updateBounds b = b"
proof -
  assume "bounds b = bounds (updateBounds b)"
  then have "b\<lparr>bounds := bounds (updateBounds b)\<rparr> = b" by simp
  moreover have "updateBounds b = b\<lparr>bounds := bounds (updateBounds b)\<rparr>"
    by (cases "shape b") (simp_all add: updateBounds_def Let_def)
  ultimately show ?thesis by simp
qed

lemma updateBounds_idem [simp]: "bounds (updateBounds (updateBounds b)) = bounds (updateBounds b)"
  by (cases "shape b") (simp_all add: updateBounds_def Let_def)

lemma new_PhysicsBody_bounds_fresh:
  "bounds (new_PhysicsBody options rid) = bounds (updateBounds (new_PhysicsBody options rid))"
  by (simp add: new_PhysicsBody_def)

lemma limit_zero [simp]: "limit (Vector2 0 0) m = Vector2 0 0"
  by (simp add: limit_def magnitudeSquared_def not_less)

lemma js_pow_positive_base: "0 < b \<Longrightarrow> \<exists>p. js_pow b e = Some p"
  by (simp add: js_pow_def)

lemma integrate_body_at_rest:
  assumes "\<not> useGravity b" "velocity b = Vector2 0 0" "angularVelocity b = 0"
    and "linearDamping b < 1" "angularDamping b < 1"
    and "bounds b = bounds (updateBounds b)"
  shows "integrate_body grav deltaTime b = Some b"
proof -
  obtain ld ad where p: "js_pow (1 - linearDamping b) deltaTime = Some ld"
    "js_pow (1 - angularDamping b) deltaTime = Some ad"
    using assms(4,5) js_pow_positive_base [of "1 - linearDamping b" deltaTime]
      js_pow_positive_base [of "1 - angularDamping b" deltaTime]
    by auto
  have same: "b\<lparr>velocity := Vector2 0 0, angularVelocity := 0,
           position := add (position b) (Vector2 0 0), rotation := rotation b\<rparr> = b"
    using assms(2,3) by (simp add: add_def Vector2_def)
  show ?thesis
  proof (cases "enabled b")
    case False
    then show ?thesis by (simp add: integrate_body_def)
  next
    case True
    then have "integrate_body grav deltaTime b =
        Some (updateBounds (b\<lparr>velocity := Vector2 0 0, angularVelocity := 0,
             position := add (position b) (Vector2 0 0), rotation := rotation b\<rparr>))"
      using assms(1-3) p by (simp add: integrate_body_def multiply_def Let_def)
    also have "\<dots> = Some b"
      unfolding same using updateBounds_fresh [OF assms(6)] by simp
    finally show ?thesis .
  qed
qed

lemma overlap_engine_eq:
  "overlap_engine =
     \<lparr>gravity = Vector2 0 980,
      heap = [new_PhysicsBody (resting_circle 20 20) ''a'', new_PhysicsBody (resting_circle 35 20) ''b''],
      bodies = [(''a'', 0), (''b'', 1)], staticBodies = [], dynamicBodies = [0, 1],
      collisionPairs = [], broadPhase = \<lparr>cellSize = 64, grid = []\<rparr>,
      stats = \<lparr>bodyCount = 2, collisionChecks = 0, collisionsDetected = 0\<rparr>\<rparr>"
proof -
  have ty: "\<And>px py rid. body_type (new_PhysicsBody (resting_circle px py) rid) = ''dynamic''"
    by (simp add: new_PhysicsBody_def resting_circle_def no_options_def)
  show ?thesis
    by (simp add: overlap_engine_def createBody_def Let_def ty new_PhysicsEngine_def set_add_def)
qed

lemma resting_circle_body:
  "position (new_PhysicsBody (resting_circle px py) rid) = Vector2 px py"
  "velocity (new_PhysicsBody (resting_circle px py) rid) = Vector2 0 0"
  "angularVelocity (new_PhysicsBody (resting_circle px py) rid) = 0"
  "\<not> useGravity (new_PhysicsBody (resting_circle px py) rid)"
  "enabled (new_PhysicsBody (resting_circle px py) rid)"
  "linearDamping (new_PhysicsBody (resting_circle px py) rid) = 1 / 100"
  "angularDamping (new_PhysicsBody (resting_circle px py) rid) = 5 / 100"
  "shape (new_PhysicsBody (resting_circle px py) rid) = Circle 10"
  "bounds (new_PhysicsBody (resting_circle px py) rid) =
     \<lparr>left = px - 10, top_b = py - 10, right = px + 10, bottom = py + 10\<rparr>"
  by (simp_all add: new_PhysicsBody_def resting_circle_def no_options_def updateBounds_def)

lemma resting_circle_integrate:
  "integrate_body grav deltaTime (new_PhysicsBody (resting_circle px py) rid) =
     Some (new_PhysicsBody (resting_circle px py) rid)"
  by (rule integrate_body_at_rest)
     (simp_all add: resting_circle_body new_PhysicsBody_bounds_fresh [symmetric])

lemma overlap_engine_integrate:
  "updateDynamicBodies deltaTime
     (overlap_engine\<lparr>stats := (stats overlap_engine)\<lparr>collisionChecks := 0, collisionsDetected := 0\<rparr>\<rparr>) =
   Some overlap_engine"
  by (simp add: overlap_engine_eq updateDynamicBodies_def resting_circle_integrate)

lemma overlap_engine_detect: "detectCollisions overlap_engine = overlap_engine"
  by (simp add: overlap_engine_eq detectCollisions_def getPotentialCollisions_def)

lemma overlap_engine_resolve: "resolveCollisions overlap_engine = Some overlap_engine"
  by (simp add: overlap_engine_eq resolveCollisions_def)

lemma floor_small: "\<lfloor>10 / 64 :: real\<rfloor> = 0" "\<lfloor>30 / 64 :: real\<rfloor> = 0"
  "\<lfloor>25 / 64 :: real\<rfloor> = 0" "\<lfloor>45 / 64 :: real\<rfloor> = 0"
  by (simp_all add: floor_eq_iff)

lemma overlap_engine_cells:
  "getCells (broadPhase overlap_engine) (bounds (heap overlap_engine ! 0)) = Some [(0, 0)]"
  "getCells (broadPhase overlap_engine) (bounds (heap overlap_engine ! Suc 0)) = Some [(0, 0)]"
  by (simp_all add: overlap_engine_eq getCells_def resting_circle_body js_div_def floor_small)

lemma overlap_engine_hash: "updateSpatialHash overlap_engine = Some overlap_engine_after"
  by (simp add: overlap_engine_after_def updateSpatialHash_def)
     (simp add: overlap_engine_eq clear_def insert_body_def getCells_def grid_add_def set_add_def
        floor_small resting_circle_body js_div_def)

lemma overlap_distance: "distanceTo (Vector2 20 20) (Vector2 35 20) = 15"
proof -
  have "sqrt (15 * 15) = (15 :: real)" by (simp only: real_sqrt_abs2)
  then show ?thesis by (simp add: distanceTo_def)
qed

lemma overlap_engine_manifold:
  "checkCollision (heap overlap_engine) 0 (Suc 0) =
     Some \<lparr>bodyA = 0, bodyB = Suc 0, normal = Vector2 1 0, penetration = 5,
           contactPoint = Vector2 30 20\<rparr>"
proof -
  have n: "normalize (Vector2 15 0) = Vector2 1 0"
    using normalize_unit(1) [of "Vector2 15 0"] two_circles_distance
    by (simp add: magnitude_def distanceTo_def)
  have "circleCircleCollision (heap overlap_engine) 0 (Suc 0) =
     Some \<lparr>bodyA = 0, bodyB = Suc 0, normal = Vector2 1 0, penetration = 5,
           contactPoint = Vector2 30 20\<rparr>"
    by (simp add: circleCircleCollision_def overlap_engine_eq resting_circle_body overlap_distance
        subtract_def n add_def multiply_def)
  moreover have "checkCollision (heap overlap_engine) 0 (Suc 0) =
      circleCircleCollision (heap overlap_engine) 0 (Suc 0)"
    by (rule checkCollision_circles [of _ _ 10 _ 10])
       (simp_all add: overlap_engine_eq resting_circle_body new_PhysicsBody_bounds_fresh [symmetric])
  ultimately show ?thesis by simp
qed

text \<open>
  C1, evaluated on the code. Two enabled circles of radius 10 at (20, 20) and (35, 20) are
  created in a fresh engine; they overlap by 5 and both lie within the grid cell (0, 0).
  The first \<open>update\<close> examines no candidate pair and records no manifold: it pulls the
  candidates from the spatial hash before \<open>updateSpatialHash\<close> has filled it, and fills
  it only afterwards. Pulled from the hash as it stands after the call, the pair is a
  candidate and \<open>checkCollision\<close> yields its manifold.
\<close>

theorem update_detects_before_rebuilding_hash:
  "update (1 / 60) overlap_engine = Some overlap_engine_after \<and>
   collisionChecks (stats overlap_engine_after) = 0 \<and>
   collisionPairs overlap_engine_after = [] \<and>
   heap overlap_engine_after = heap overlap_engine \<and>
   enabled (heap overlap_engine_after ! 0) \<and> enabled (heap overlap_engine_after ! Suc 0) \<and>
   getCells (broadPhase overlap_engine_after) (bounds (heap overlap_engine_after ! 0)) =
     Some [(0, 0)] \<and>
   getCells (broadPhase overlap_engine_after) (bounds (heap overlap_engine_after ! Suc 0)) =
     Some [(0, 0)] \<and>
   checkCollision (heap overlap_engine_after) 0 (Suc 0) =
     Some \<lparr>bodyA = 0, bodyB = Suc 0, normal = Vector2 1 0, penetration = 5,
           contactPoint = Vector2 30 20\<rparr> \<and>
   getPotentialCollisions (heap overlap_engine_after) (broadPhase overlap_engine_after) =
     [(0, Suc 0)]"
proof -
  have u: "update (1 / 60) overlap_engine = Some overlap_engine_after"
    by (simp add: update_def overlap_engine_integrate overlap_engine_detect
        overlap_engine_resolve overlap_engine_hash)
  have h: "heap overlap_engine_after = heap overlap_engine"
    by (simp add: overlap_engine_after_def)
  have s: "collisionChecks (stats overlap_engine_after) = 0" "collisionPairs overlap_engine_after = []"
    "enabled (heap overlap_engine_after ! 0)" "enabled (heap overlap_engine_after ! Suc 0)"
    by (simp_all add: overlap_engine_after_def overlap_engine_eq resting_circle_body)
  have c: "getCells (broadPhase overlap_engine_after) (bounds (heap overlap_engine_after ! 0)) =
     Some [(0, 0)]"
    "getCells (broadPhase overlap_engine_after) (bounds (heap overlap_engine_after ! Suc 0)) =
     Some [(0, 0)]"
    by (simp_all add: overlap_engine_after_def overlap_engine_eq getCells_def resting_circle_body
        js_div_def floor_small)
  have p: "getPotentialCollisions (heap overlap_engine_after) (broadPhase overlap_engine_after) =
     [(0, Suc 0)]"
    by (simp add: overlap_engine_after_def getPotentialCollisions_def set_add_def)
  from u h s c p overlap_engine_manifold show ?thesis by simp
qed

lemma resolveCollisions_frame:
  "resolveCollisions e = Some e' \<Longrightarrow>
   collisionPairs e' = collisionPairs e \<and> stats e' = stats e \<and> broadPhase e' = broadPhase e"
  by (auto simp: resolveCollisions_def split: Option.bind_splits)

lemma updateSpatialHash_frame:
  "updateSpatialHash e = Some e' \<Longrightarrow>
   collisionPairs e' = collisionPairs e \<and> stats e' = stats e \<and> heap e' = heap e"
  by (auto simp: updateSpatialHash_def split: Option.bind_splits)

lemma updateDynamicBodies_frame:
  "updateDynamicBodies deltaTime e = Some e' \<Longrightarrow> broadPhase e' = broadPhase e \<and> stats e' = stats e"
  by (auto simp: updateDynamicBodies_def split: Option.bind_splits)

text \<open>
  In general the number of candidate pairs an \<open>update\<close> examines is the number of pairs
  in the hash as it was when \<open>update\<close> was called, read with the integrated bodies.
\<close>

lemma update_candidates_from_hash_at_call:
  assumes "update deltaTime e = Some e'"
  shows "\<exists>e1. updateDynamicBodies deltaTime
                 (e\<lparr>stats := (stats e)\<lparr>collisionChecks := 0, collisionsDetected := 0\<rparr>\<rparr>) = Some e1 \<and>
              broadPhase e1 = broadPhase e \<and>
              collisionChecks (stats e') =
                int (length (getPotentialCollisions (heap e1) (broadPhase e)))"
proof -
  let ?e0 = "e\<lparr>stats := (stats e)\<lparr>collisionChecks := 0, collisionsDetected := 0\<rparr>\<rparr>"
  from assms obtain e1 e3 where
    e1: "updateDynamicBodies deltaTime ?e0 = Some e1"
    and e3: "resolveCollisions (detectCollisions e1) = Some e3"
    and e': "updateSpatialHash e3 = Some e'"
    by (auto simp: update_def Let_def split: Option.bind_splits)
  have b: "broadPhase e1 = broadPhase e" and s1: "collisionChecks (stats e1) = 0"
    using updateDynamicBodies_frame [OF e1] by simp_all
  have count: "\<And>ps found s. collisionChecks (snd (fold (detect_pair (heap e1)) ps (found, s))) =
      collisionChecks s + int (length ps)"
  proof -
    fix ps found s
    show "collisionChecks (snd (fold (detect_pair (heap e1)) ps (found, s))) =
      collisionChecks s + int (length ps)"
    proof (induction ps arbitrary: found s)
      case Nil
      then show ?case by simp
    next
      case (Cons p ps)
      obtain f' s' where st: "detect_pair (heap e1) p (found, s) = (f', s')"
        by (cases "detect_pair (heap e1) p (found, s)")
      then have "collisionChecks s' = collisionChecks s + 1"
        by (cases p) (auto simp: detect_pair_def Let_def split: if_splits option.splits)
      with Cons [of f' s'] st show ?case by simp
    qed
  qed
  have "collisionChecks (stats (detectCollisions e1)) =
      int (length (getPotentialCollisions (heap e1) (broadPhase e1)))"
    using count [of "getPotentialCollisions (heap e1) (broadPhase e1)" "[]" "stats e1"] s1
    by (auto simp: detectCollisions_def Let_def split: prod.splits)
  with resolveCollisions_frame [OF e3] updateSpatialHash_frame [OF e'] b e1
  show ?thesis by simp
qed

end
